theory Spec2Isabelle
  imports Main "HOL-Library.Word"
begin

section \<open>Go library functions the proxy calls\<close>

text \<open>
  Go strings are byte strings; they are modelled as \<^typ>\<open>string\<close> (a list of 8-bit
  characters). \<^verbatim>\<open>strings.Split\<close> at a comma and the header functions of
  \<^verbatim>\<open>net/textproto\<close> work byte by byte and are defined below as Go defines them.

  \<^verbatim>\<open>strings.TrimSpace\<close> and \<^verbatim>\<open>strings.EqualFold\<close> read their arguments as UTF-8: the
  first trims the white space of Unicode, the second compares under Unicode's simple case
  folding. The proxy is modelled for any such pair of functions: they are a parameter of
  the model, so that what is proved holds of Go's own.
\<close>

record Strings =
  TrimSpace :: "string \<Rightarrow> string"
  EqualFold :: "string \<Rightarrow> string \<Rightarrow> bool"

text \<open>On ASCII strings the two functions are the following: the white space of ASCII is
  trimmed and letters are compared up to case. The scenarios of this theory use them, on
  ASCII headers only.\<close>

definition isSpace :: "char \<Rightarrow> bool" where
  "isSpace c = (c = CHR 0x09 \<or> c = CHR 0x0A \<or> c = CHR 0x0B \<or> c = CHR 0x0C \<or> c = CHR 0x0D \<or> c = CHR 0x20)"

definition asciiTrimSpace :: "string \<Rightarrow> string" where
  "asciiTrimSpace s = rev (dropWhile isSpace (rev (dropWhile isSpace s)))"

text \<open>\<^verbatim>\<open>strings.Split(s, sep)\<close> for a one-byte separator: the pieces between the
  separators, one more than there are separators (so never the empty list).\<close>

fun Split :: "string \<Rightarrow> char \<Rightarrow> string list" where
  "Split [] sep = [[]]"
| "Split (c # cs) sep =
     (if c = sep then [] # Split cs sep
      else (case Split cs sep of [] \<Rightarrow> [[c]] | t # ts \<Rightarrow> (c # t) # ts))"

definition isUpper :: "char \<Rightarrow> bool" where
  "isUpper c = (65 \<le> (of_char c :: nat) \<and> (of_char c :: nat) \<le> 90)"

definition isLower :: "char \<Rightarrow> bool" where
  "isLower c = (97 \<le> (of_char c :: nat) \<and> (of_char c :: nat) \<le> 122)"

definition toLower :: "char \<Rightarrow> char" where
  "toLower c = (if isUpper c then char_of ((of_char c :: nat) + 32) else c)"

definition toUpper :: "char \<Rightarrow> char" where
  "toUpper c = (if isLower c then char_of ((of_char c :: nat) - 32) else c)"

definition asciiEqualFold :: "string \<Rightarrow> string \<Rightarrow> bool" where
  "asciiEqualFold s t = (map toLower s = map toLower t)"

definition asciiStrings :: Strings where
  "asciiStrings = \<lparr>TrimSpace = asciiTrimSpace, EqualFold = asciiEqualFold\<rparr>"

text \<open>\<^verbatim>\<open>textproto.validHeaderFieldByte\<close>: the token characters of RFC 7230.\<close>

definition validHeaderFieldByte :: "char \<Rightarrow> bool" where
  "validHeaderFieldByte c =
     (isUpper c \<or> isLower c \<or> (48 \<le> (of_char c :: nat) \<and> (of_char c :: nat) \<le> 57)
      \<or> c \<in> set ''!#$%&*+-.^_`|~'' \<or> c = CHR 0x27)"

text \<open>The capitalisation loop of \<^verbatim>\<open>canonicalMIMEHeaderKey\<close>: upper case at the start and
  after each dash, lower case elsewhere.\<close>

fun canonLoop :: "bool \<Rightarrow> string \<Rightarrow> string" where
  "canonLoop upper [] = []"
| "canonLoop upper (c # cs) =
     (let c' = (if upper then toUpper c else toLower c)
      in c' # canonLoop (c' = CHR ''-'') cs)"

text \<open>\<^verbatim>\<open>textproto.CanonicalMIMEHeaderKey\<close>: a key with a byte that is not a token
  character is returned as it is.\<close>

definition CanonicalMIMEHeaderKey :: "string \<Rightarrow> string" where
  "CanonicalMIMEHeaderKey s = (if list_all validHeaderFieldByte s then canonLoop True s else s)"

text \<open>\<^verbatim>\<open>http.Header\<close> is \<^verbatim>\<open>map[string][]string\<close>.\<close>

type_synonym Header = "string \<rightharpoonup> string list"

text \<open>\<^verbatim>\<open>Header.Get\<close>: the first value under the canonical key, or the empty string.\<close>

definition Get :: "Header \<Rightarrow> string \<Rightarrow> string" where
  "Get h key = (case h (CanonicalMIMEHeaderKey key) of None \<Rightarrow> [] | Some [] \<Rightarrow> [] | Some (v # _) \<Rightarrow> v)"

text \<open>\<^verbatim>\<open>Header.Del\<close>: deletes the canonical key.\<close>

definition Del :: "Header \<Rightarrow> string \<Rightarrow> Header" where
  "Del h key = h(CanonicalMIMEHeaderKey key := None)"

text \<open>\<^verbatim>\<open>base64.StdEncoding.EncodeToString\<close>.\<close>

definition b64alphabet :: string where
  "b64alphabet = ''ABCDEFGHIJKLMNOPQRSTUVWXYZabcdefghijklmnopqrstuvwxyz0123456789+/''"

definition b64digit :: "nat \<Rightarrow> char" where
  "b64digit n = b64alphabet ! (n mod 64)"

fun b64enc :: "nat list \<Rightarrow> string" where
  "b64enc [] = []"
| "b64enc [a] =
     [b64digit (a div 4), b64digit ((a mod 4) * 16), CHR ''='', CHR ''='']"
| "b64enc [a, b] =
     [b64digit (a div 4), b64digit ((a mod 4) * 16 + b div 16), b64digit ((b mod 16) * 4), CHR ''='']"
| "b64enc (a # b # c # rest) =
     [b64digit (a div 4), b64digit ((a mod 4) * 16 + b div 16),
      b64digit ((b mod 16) * 4 + c div 64), b64digit (c mod 64)] @ b64enc rest"

definition EncodeToString :: "string \<Rightarrow> string" where
  "EncodeToString s = b64enc (map of_char s)"

section \<open>Requests, responses and the per-request context\<close>

text \<open>\<^verbatim>\<open>url.Userinfo\<close> and the fields of \<^verbatim>\<open>url.URL\<close>, \<^verbatim>\<open>http.Request\<close> and
  \<^verbatim>\<open>http.Response\<close> that the proxy reads or writes.\<close>

record Userinfo =
  username :: string
  password :: string

record URL =
  Scheme :: string
  Opaque :: string
  User :: "Userinfo option"
  UHost :: string

record Request =
  Method :: string
  Url :: URL
  Header :: Header
  Host :: string
  RemoteAddr :: string

record Response =
  StatusCode :: int
  RespHeader :: Header

text \<open>Modelled from the spec: the error kinds are constants of the repository declared
  outside the source files at hand; every kind the source names is a constructor.\<close>

datatype ErrType =
    ConnectFail | AuthFail | BeforeRequestFail | ParentProxyFail | BeforeResponseFail
  | HTTPDoRequestFail | HTTPWriteClientFail
  | HTTPWebsocketDailFail | HTTPWebsocketHijackFail | HTTPWebsocketHandshakeFail
  | HTTPSWebsocketGenerateTLSConfigFail | HTTPSWebsocketHijackFail
  | HTTPSWebsocketWriteEstRespFail | HTTPSWebsocketTLSClientConnHandshakeFail
  | HTTPSWebsocketReadReqFromBufFail | HTTPSWebsocketDailFail | HTTPSWebsocketHandshakeFail
  | HTTPSGenerateTLSConfigFail | HTTPSHijackClientConnFail | HTTPSWriteEstRespFail
  | HTTPSTLSClientConnHandshakeFail | HTTPSReadReqFromBufFail | HTTPSDoRequestFail
  | HTTPSWriteRespFail
  | TunnelHijackClientConnFail | TunnelDialRemoteServerFail | TunnelWriteEstRespFail
  | TunnelConnectRemoteFail | TunnelWriteConnFail

text \<open>Modelled from the spec: the \<^verbatim>\<open>Context\<close> struct is declared outside the source files
  at hand. Its fields are those \<^verbatim>\<open>ServeHTTP\<close> initialises and the handlers use; the
  byte counters are \<^verbatim>\<open>int64\<close>. (\<^verbatim>\<open>Data\<close>, the delegate's scratch map, is never read by
  the proxy and is left out; the mutex \<^verbatim>\<open>Lock\<close> is the atomicity of the two close
  functions below.)\<close>

record Context =
  Req :: Request
  Hijack :: bool
  MITM :: bool
  ReqLength :: "64 word"
  RespLength :: "64 word"
  Closed :: bool
  abort :: bool
  errType :: "ErrType option"
  err :: "string option"

section \<open>The world outside the handler\<close>

text \<open>The byte streams a handler holds: the response writer \<^verbatim>\<open>rw\<close>, the hijacked client
  connection, the TLS server connection wrapped around it, and the dialled target.\<close>

datatype Conn = RW | ClientConn | TLSClientConn | TargetConn

datatype Callback = Connect | Auth | BeforeRequest | ParentProxy | BeforeResponse | DuringResponse | Finish

datatype Handler = ForwardHTTP | ForwardHTTPWebsocket | ForwardTunnel | ForwardHTTPS | ForwardHTTPSWebsocket

text \<open>What is written to a stream: raw bytes, a serialised request or response
  (\<^verbatim>\<open>Request.Write\<close>, \<^verbatim>\<open>Response.Write\<close>), or the JSON of a \<^verbatim>\<open>ProxyError\<close>
  (\<^verbatim>\<open>errType\<close>, \<^verbatim>\<open>errCode\<close>, \<^verbatim>\<open>errMsg\<close>).\<close>

datatype Payload =
    Bytes string
  | ReqMsg Request
  | RespMsg Response
  | ProxyErrorJSON string int string
  | BodyOf Response

text \<open>Every effect of a handler on the outside is an event of the log, in program order.\<close>

datatype Event =
    Cb Callback bool
  | Enter Handler
  | WriteHeader int
  | CopyHeaderTo Header
  | Wrote Conn Payload
  | WriteFailed Conn Payload
  | Dialled string
  | Hijacked
  | RoundTrip Request "URL option"
  | Copied Conn Conn "64 word"
  | ConnClose Conn
  | BodyClose
  | Panic string

text \<open>The state a handler runs in: the context, the log, and which connections have been
  closed (a write to a closed connection fails).\<close>

record World =
  ctx :: Context
  log :: "Event list"
  clientClosed :: bool
  targetClosed :: bool

datatype HijackResult = HijackOK | HijackUnsupported | HijackError string

datatype ReadRequestResult = ReadEOF | ReadError string | ReadOK Request

text \<open>The delegate is an interface of the repository declared outside the source files at
  hand, so it is a parameter: each callback may change the context in any way (the request
  included). \<^verbatim>\<open>ParentProxy\<close> is handed \<^verbatim>\<open>rw\<close> or a connection (possibly nil) and also
  returns the parent URL and an error (and, in the model, what it left in the objects it
  was handed). \<^verbatim>\<open>BeforeResponse\<close> is handed a
  \<^verbatim>\<open>ResponseWrapper\<close> by \<^verbatim>\<open>DoRequest\<close> (the transport's result; it may change the
  response in place) and a \<^verbatim>\<open>ConnWrapper\<close> by the tunnel (the dial error, if any);
  \<^verbatim>\<open>DuringResponse\<close> is handed the response (which it may change in place) or the
  target connection. What a callback does to a connection it is handed is part of what the
  network does (\<^verbatim>\<open>Net\<close> below). The URL \<^verbatim>\<open>ParentProxy\<close> returns is the delegate's own
  object and is read as it was returned.\<close>

text \<open>Two functions of the proxy keep a pointer of their own across a call of
  \<^verbatim>\<open>ParentProxy\<close>: \<^verbatim>\<open>DoRequest\<close> has copied \<^verbatim>\<open>*ctx.Req\<close> into \<^verbatim>\<open>newReq\<close>, which
  shares the URL object \<^verbatim>\<open>ctx.Req.URL\<close> until its \<^verbatim>\<open>Clone\<close>, and \<^verbatim>\<open>serveWebsocket\<close>
  holds \<^verbatim>\<open>req\<close>, the request object \<^verbatim>\<open>ctx.Req\<close> pointed to. The delegate may change
  these objects in place or make the context point elsewhere, so the call also tells what
  it left in them: the request object it was handed, the URL object it was handed, and
  whether the URL of that request object is still the object \<^verbatim>\<open>ctx.Req.URL\<close> points
  to.\<close>

record Handed =
  reqObject :: Request
  urlObject :: URL
  urlShared :: bool

record Delegate =
  dConnect :: "Context \<Rightarrow> Context"
  dAuth :: "Context \<Rightarrow> Context"
  dBeforeRequest :: "Context \<Rightarrow> Context"
  dParentProxy :: "Context \<Rightarrow> Conn option \<Rightarrow> Context \<times> URL option \<times> string option \<times> Handed"
  dBeforeResponse :: "Context \<Rightarrow> string + Response \<Rightarrow> Context \<times> (Response \<Rightarrow> Response)"
  dBeforeResponseConn :: "Context \<Rightarrow> string option \<Rightarrow> Context"
  dDuringResponse :: "Context \<Rightarrow> Response \<Rightarrow> Context \<times> Response"
  dDuringResponseConn :: "Context \<Rightarrow> Context"
  dFinish :: "Context \<Rightarrow> Context"

text \<open>The outcome of every operation on the network and on the response writer: an error
  is its message. \<^verbatim>\<open>ioCopy(dst, src)\<close> is \<^verbatim>\<open>io.Copy(dst, src)\<close>, the bytes copied and the
  error; \<^verbatim>\<open>respCopyFirst\<close> is the order in which the two copies of the pump finish.\<close>

record Net =
  rwHijack :: HijackResult
  DialTimeout :: "string \<Rightarrow> string option"
  tlsDial :: "string \<Rightarrow> string option"
  tlsHandshake :: "string option"
  ReadRequest :: ReadRequestResult
  ReadResponse :: "string + Response"
  ioWrite :: "Conn \<Rightarrow> Payload \<Rightarrow> nat \<times> string option"
  DumpRequestOut :: "Request \<Rightarrow> string + string"
  ioCopy :: "Conn \<Rightarrow> Conn \<Rightarrow> 64 word \<times> string option"
  respCopyFirst :: bool
  urlString :: "URL \<Rightarrow> string"

text \<open>The \<^verbatim>\<open>Proxy\<close> struct: the delegate, the certificate provider
  (\<^verbatim>\<open>p.cert.GenerateTLSConfig\<close>, an error or a configuration), the shared transport
  (\<^verbatim>\<open>p.transport.RoundTrip\<close>, which sees the request and, through its \<^verbatim>\<open>Proxy\<close>
  function, the parent URL and the error \<^verbatim>\<open>ParentProxy\<close> returned); and what the proxy
  runs on: the network and the \<^verbatim>\<open>strings\<close> package.\<close>

record Proxy =
  delegate :: Delegate
  GenerateTLSConfig :: "string \<Rightarrow> string option"
  trRoundTrip :: "Request \<Rightarrow> URL option \<Rightarrow> string option \<Rightarrow> string + Response"
  net :: Net
  strings :: Strings

section \<open>Primitive steps\<close>

definition emit :: "Event \<Rightarrow> World \<Rightarrow> World" where
  "emit e w = w\<lparr>log := log w @ [e]\<rparr>"

text \<open>A delegate callback runs inline on the context; the log keeps which callback ran
  and whether \<^verbatim>\<open>ctx.abort\<close> was set when it returned.\<close>

definition callDelegate :: "Callback \<Rightarrow> (Context \<Rightarrow> Context) \<Rightarrow> World \<Rightarrow> World" where
  "callDelegate cb f w = (let c = f (ctx w) in w\<lparr>ctx := c, log := log w @ [Cb cb (abort c)]\<rparr>)"

text \<open>Modelled from the spec: \<^verbatim>\<open>SetContextErrType\<close> and \<^verbatim>\<open>SetContextErrorWithType\<close>
  are methods of \<^verbatim>\<open>Context\<close> declared outside the source files at hand; they record the
  typed failure on the context.\<close>

definition SetContextErrType :: "ErrType \<Rightarrow> World \<Rightarrow> World" where
  "SetContextErrType t w = w\<lparr>ctx := (ctx w)\<lparr>errType := Some t\<rparr>\<rparr>"

definition SetContextErrorWithType :: "string \<Rightarrow> ErrType \<Rightarrow> World \<Rightarrow> World" where
  "SetContextErrorWithType e t w = w\<lparr>ctx := (ctx w)\<lparr>errType := Some t, err := Some e\<rparr>\<rparr>"

definition isClosed :: "Conn \<Rightarrow> World \<Rightarrow> bool" where
  "isClosed c w = (case c of RW \<Rightarrow> False | ClientConn \<Rightarrow> clientClosed w
                   | TLSClientConn \<Rightarrow> clientClosed w | TargetConn \<Rightarrow> targetClosed w)"

text \<open>\<^verbatim>\<open>conn.Close()\<close>; closing the TLS connection closes the connection under it.\<close>

definition connClose :: "Conn \<Rightarrow> World \<Rightarrow> World" where
  "connClose c w =
     (let w' = emit (ConnClose c) w
      in case c of RW \<Rightarrow> w' | ClientConn \<Rightarrow> w'\<lparr>clientClosed := True\<rparr>
         | TLSClientConn \<Rightarrow> w'\<lparr>clientClosed := True\<rparr> | TargetConn \<Rightarrow> w'\<lparr>targetClosed := True\<rparr>)"

text \<open>A write to a stream: it fails on a closed connection (no byte written), otherwise
  the outside decides how many bytes go through and whether the write fails.\<close>

definition connWrite :: "Proxy \<Rightarrow> Conn \<Rightarrow> Payload \<Rightarrow> World \<Rightarrow> World \<times> nat \<times> string option" where
  "connWrite p c b w =
     (if isClosed c w then (emit (WriteFailed c b) w, 0, Some ''use of closed network connection'')
      else (case ioWrite (net p) c b of
              (n, None) \<Rightarrow> (emit (Wrote c b) w, n, None)
            | (n, Some e) \<Rightarrow> (emit (WriteFailed c b) w, n, Some e)))"

section \<open>The close-once guard\<close>

text \<open>\<^verbatim>\<open>CloseResponseBody\<close> and \<^verbatim>\<open>CloseNetConn\<close>; each runs under the context's lock,
  so as one atomic step.\<close>

definition CloseResponseBody :: "World \<Rightarrow> World" where
  "CloseResponseBody w =
     (if Closed (ctx w) then w
      else (emit BodyClose w)\<lparr>ctx := (ctx w)\<lparr>Closed := True\<rparr>\<rparr>)"

definition CloseNetConn :: "Conn \<Rightarrow> World \<Rightarrow> World" where
  "CloseNetConn conn w =
     (if Closed (ctx w) then w
      else (connClose conn w)\<lparr>ctx := (ctx w)\<lparr>Closed := True\<rparr>\<rparr>)"

datatype CloseCall = CallCloseResponseBody | CallCloseNetConn Conn

fun closeCall :: "CloseCall \<Rightarrow> World \<Rightarrow> World" where
  "closeCall CallCloseResponseBody w = CloseResponseBody w"
| "closeCall (CallCloseNetConn c) w = CloseNetConn c w"

fun closeCalls :: "CloseCall list \<Rightarrow> World \<Rightarrow> World" where
  "closeCalls [] w = w"
| "closeCalls (c # cs) w = closeCalls cs (closeCall c w)"

fun isCloseEvent :: "Event \<Rightarrow> bool" where
  "isCloseEvent (ConnClose c) = True"
| "isCloseEvent BodyClose = True"
| "isCloseEvent e = False"

text \<open>The values the \<^verbatim>\<open>Closed\<close> flag takes along a sequence of calls, the first one
  being its value before the first call.\<close>

fun closedHistory :: "CloseCall list \<Rightarrow> World \<Rightarrow> bool list" where
  "closedHistory [] w = [Closed (ctx w)]"
| "closedHistory (c # cs) w = Closed (ctx w) # closedHistory cs (closeCall c w)"

fun risingEdges :: "bool list \<Rightarrow> nat" where
  "risingEdges (a # b # bs) = (if \<not> a \<and> b then 1 else 0) + risingEdges (b # bs)"
| "risingEdges bs = 0"

section \<open>The byte pump\<close>

text \<open>\<^verbatim>\<open>copyOrWarn(ctx, dst, src, wg, len)\<close>: \<^verbatim>\<open>io.Copy(dst, src)\<close>, whose byte count goes
  to the counter \<^verbatim>\<open>len\<close> points to.\<close>

datatype Counter = ReqLengthCounter | RespLengthCounter

definition setCounter :: "Counter \<Rightarrow> 64 word \<Rightarrow> World \<Rightarrow> World" where
  "setCounter k n w =
     (case k of ReqLengthCounter \<Rightarrow> w\<lparr>ctx := (ctx w)\<lparr>ReqLength := n\<rparr>\<rparr>
      | RespLengthCounter \<Rightarrow> w\<lparr>ctx := (ctx w)\<lparr>RespLength := n\<rparr>\<rparr>)"

definition copyOrWarn :: "Proxy \<Rightarrow> Conn \<Rightarrow> Conn \<Rightarrow> Counter \<Rightarrow> World \<Rightarrow> World" where
  "copyOrWarn p dst src len w =
     (case ioCopy (net p) dst src of
        (written, e) \<Rightarrow>
          (let w1 = emit (Copied dst src written) w;
               w2 = (case e of None \<Rightarrow> w1 | Some msg \<Rightarrow> SetContextErrorWithType msg TunnelWriteConnFail w1)
           in setCounter len written w2))"

text \<open>\<^verbatim>\<open>transfer(ctx, src, dst)\<close>: the two copies run concurrently and write different
  counters; \<^verbatim>\<open>wg.Wait()\<close> returns when both are done, in the order the outside decides
  (\<^const>\<open>respCopyFirst\<close>). Then both ends are closed.\<close>

definition transfer :: "Proxy \<Rightarrow> Conn \<Rightarrow> Conn \<Rightarrow> World \<Rightarrow> World" where
  "transfer p src dst w =
     (let w1 = (if respCopyFirst (net p)
                then copyOrWarn p dst src ReqLengthCounter (copyOrWarn p src dst RespLengthCounter w)
                else copyOrWarn p src dst RespLengthCounter (copyOrWarn p dst src ReqLengthCounter w))
      in connClose dst (connClose src w1))"

section \<open>Header utilities\<close>

definition hopHeaders :: "string list" where
  "hopHeaders = [''Connection'', ''Proxy-Connection'', ''Keep-Alive'', ''Proxy-Authenticate'',
     ''Proxy-Authorization'', ''Te'', ''Trailer'', ''Transfer-Encoding'', ''Upgrade'']"

definition removeConnectionHeaders :: "Strings \<Rightarrow> Header \<Rightarrow> Header" where
  "removeConnectionHeaders lib h =
     (let c = Get h ''Connection''
      in if c \<noteq> []
         then foldl (\<lambda>h f. let f' = TrimSpace lib f in if f' \<noteq> [] then Del h f' else h) h (Split c CHR '','')
         else h)"

definition removeMITMHeaders :: "Header \<Rightarrow> Header" where
  "removeMITMHeaders h = (if Get h ''MITM'' \<noteq> [] then Del h ''MITM'' else h)"

text \<open>\<^verbatim>\<open>CloneHeader\<close> copies every value slice; on immutable values the deep copy is the
  header itself.\<close>

definition CloneHeader :: "Header \<Rightarrow> Header" where
  "CloneHeader h = (\<lambda>k. case h k of None \<Rightarrow> None | Some vv \<Rightarrow> Some (map (\<lambda>v. v) vv))"

text \<open>The loop of \<^verbatim>\<open>DoRequest\<close> over \<^verbatim>\<open>hopHeaders\<close> on the outgoing request
  (\<^verbatim>\<open>if newReq.Header.Get(item) != "" { newReq.Header.Del(item) }\<close>) and its loop on the
  response (\<^verbatim>\<open>resp.Header.Del(h)\<close>).\<close>

definition delHopHeadersRequest :: "Header \<Rightarrow> Header" where
  "delHopHeadersRequest h = foldl (\<lambda>h item. if Get h item \<noteq> [] then Del h item else h) h hopHeaders"

definition delHopHeadersResponse :: "Header \<Rightarrow> Header" where
  "delHopHeadersResponse h = foldl (\<lambda>h item. Del h item) h hopHeaders"

definition headerContains :: "Strings \<Rightarrow> Header \<Rightarrow> string \<Rightarrow> string \<Rightarrow> bool" where
  "headerContains lib header name val =
     list_ex (\<lambda>v. list_ex (\<lambda>s. EqualFold lib val (TrimSpace lib s)) (Split v CHR '',''))
       (case header name of None \<Rightarrow> [] | Some vs \<Rightarrow> vs)"

definition isWebSocketRequest :: "Strings \<Rightarrow> Request \<Rightarrow> bool" where
  "isWebSocketRequest lib r =
     (headerContains lib (Header r) ''Connection'' ''upgrade'' \<and>
      headerContains lib (Header r) ''Upgrade'' ''websocket'')"

section \<open>Writing to the client\<close>

definition tunnelEstablishedResponseLine :: string where
  "tunnelEstablishedResponseLine =
     ''HTTP/1.1 200 Connection established'' @ [CHR 0x0D, CHR 0x0A, CHR 0x0D, CHR 0x0A]"

definition addRespLength :: "nat \<Rightarrow> World \<Rightarrow> World" where
  "addRespLength n w = w\<lparr>ctx := (ctx w)\<lparr>RespLength := RespLength (ctx w) + of_nat n\<rparr>\<rparr>"

text \<open>\<^verbatim>\<open>WriteProxyErrorToResponseBody\<close>. (\<^verbatim>\<open>json.Marshal\<close> of a struct of two strings
  and an \<^verbatim>\<open>int32\<close> does not fail, so the panic is not a branch.)\<close>

definition WriteProxyErrorToResponseBody :: "Proxy \<Rightarrow> Conn \<Rightarrow> int \<Rightarrow> string \<Rightarrow> string \<Rightarrow> World \<Rightarrow> World" where
  "WriteProxyErrorToResponseBody p respWriter httpcode msg optionalPrefix w =
     (let w1 = (if optionalPrefix \<noteq> []
                then (case connWrite p respWriter (Bytes optionalPrefix) w of
                        (w', m, _) \<Rightarrow> addRespLength m w')
                else w)
      in case connWrite p respWriter (ProxyErrorJSON ''PROXY_CENTER_INTERNAL_ERR'' httpcode msg) w1 of
           (w2, n, _) \<Rightarrow> addRespLength n w2)"

text \<open>\<^verbatim>\<open>hijacker(rw)\<close>: the connection it returns is \<^const>\<open>ClientConn\<close>.\<close>

definition hijacker :: "Proxy \<Rightarrow> World \<Rightarrow> World \<times> string option" where
  "hijacker p w =
     (case rwHijack (net p) of
        HijackUnsupported \<Rightarrow> (w, Some ''hijacker is not supported'')
      | HijackError e \<Rightarrow> (w, Some (''hijacker failed: '' @ e))
      | HijackOK \<Rightarrow> (emit Hijacked w, None))"

definition setHijack :: "World \<Rightarrow> World" where
  "setHijack w = w\<lparr>ctx := (ctx w)\<lparr>Hijack := True\<rparr>\<rparr>"

definition setScheme :: "string \<Rightarrow> World \<Rightarrow> World" where
  "setScheme s w = w\<lparr>ctx := (ctx w)\<lparr>Req := (Req (ctx w))\<lparr>Url := (Url (Req (ctx w)))\<lparr>Scheme := s\<rparr>\<rparr>\<rparr>\<rparr>"

text \<open>\<^verbatim>\<open>p.delegate.ParentProxy(ctx, rwOrConn)\<close>, which also returns the parent URL and an
  error, and what it left in the objects it was handed.\<close>

definition callParentProxy ::
  "Proxy \<Rightarrow> Conn option \<Rightarrow> World \<Rightarrow> World \<times> URL option \<times> string option \<times> Handed" where
  "callParentProxy p c w =
     (case dParentProxy (delegate p) (ctx w) c of
        (c', parentProxyURL, e, handed) \<Rightarrow>
          (w\<lparr>ctx := c', log := log w @ [Cb ParentProxy (abort c')]\<rparr>, parentProxyURL, e, handed))"

section \<open>Request transport\<close>

text \<open>\<^verbatim>\<open>DoRequest(ctx, rw, responseFunc, conn...)\<close>. The continuation receives the
  transport's result: an error (\<^const>\<open>Inl\<close>) or the response. A single \<^verbatim>\<open>conn\<close>
  argument is kept when it is a \<^verbatim>\<open>*tls.Conn\<close> (of the streams of this model, the TLS
  server connection) and is nil otherwise. The new request is a copy of \<^verbatim>\<open>*ctx.Req\<close> as
  \<^verbatim>\<open>BeforeRequest\<close> left it, with a header of its own; its URL is the object
  \<^verbatim>\<open>ctx.Req.URL\<close> pointed to at that moment, read when \<^verbatim>\<open>newReq.Clone\<close> copies it, after
  \<^verbatim>\<open>ParentProxy\<close>. (The allocation of a nil \<^verbatim>\<open>ctx.Data\<close> has no counterpart here,
  \<^verbatim>\<open>Data\<close> being left out of the context.)\<close>

definition DoRequest :: "Proxy \<Rightarrow> (string + Response \<Rightarrow> World \<Rightarrow> World) \<Rightarrow> Conn list \<Rightarrow> World \<Rightarrow> World" where
  "DoRequest p responseFunc conn w =
     (if length conn > 1 then w
      else
        let clientConn = (case conn of [TLSClientConn] \<Rightarrow> Some TLSClientConn | _ \<Rightarrow> None);
            w1 = callDelegate BeforeRequest (dBeforeRequest (delegate p)) w
        in if abort (ctx w1) then SetContextErrType BeforeRequestFail w1
           else
             let newReq0 = (Req (ctx w1))\<lparr>Header :=
                   delHopHeadersRequest (removeConnectionHeaders (strings p) (removeMITMHeaders
                     (CloneHeader (Header (Req (ctx w1))))))\<rparr>
             in case callParentProxy p (if Hijack (ctx w1) then clientConn else Some RW) w1 of
                  (w2, parentProxyURL, perr, handed) \<Rightarrow>
                    if abort (ctx w2) then SetContextErrType ParentProxyFail w2
                    else
                      let newReq = newReq0\<lparr>Url := urlObject handed\<rparr>;
                          w3 = (case DumpRequestOut (net p) newReq of
                                  Inl dumperr \<Rightarrow> w2
                                | Inr dump \<Rightarrow> w2\<lparr>ctx := (ctx w2)\<lparr>ReqLength := of_nat (length dump)\<rparr>\<rparr>);
                          w4 = emit (RoundTrip newReq parentProxyURL) w3;
                          res = trRoundTrip p newReq parentProxyURL perr
                      in case dBeforeResponse (delegate p) (ctx w4) res of
                           (c5, inPlace) \<Rightarrow>
                             let w5 = w4\<lparr>ctx := c5, log := log w4 @ [Cb BeforeResponse (abort c5)]\<rparr>
                             in if abort (ctx w5) then SetContextErrType BeforeResponseFail w5
                                else (case res of
                                        Inl e \<Rightarrow> responseFunc (Inl e) w5
                                      | Inr resp0 \<Rightarrow>
                                          let resp = inPlace resp0
                                          in responseFunc
                                               (Inr (resp\<lparr>RespHeader :=
                                                  delHopHeadersResponse (removeConnectionHeaders (strings p) (RespHeader resp))\<rparr>))
                                               w5))"

text \<open>\<^verbatim>\<open>p.delegate.DuringResponse(ctx, resp)\<close>.\<close>

definition callDuringResponse :: "Proxy \<Rightarrow> Response \<Rightarrow> World \<Rightarrow> World \<times> Response" where
  "callDuringResponse p resp w =
     (case dDuringResponse (delegate p) (ctx w) resp of
        (c', resp') \<Rightarrow> (w\<lparr>ctx := c', log := log w @ [Cb DuringResponse (abort c')]\<rparr>, resp'))"

section \<open>Plain HTTP forwarder\<close>

text \<open>The continuation \<^verbatim>\<open>forwardHTTP\<close> hands to \<^verbatim>\<open>DoRequest\<close>; the deferred
  \<^verbatim>\<open>CloseResponseBody\<close> runs last. \<^verbatim>\<open>CopyHeader(rw.Header(), resp.Header)\<close> is the event
  \<^const>\<open>CopyHeaderTo\<close>, \<^verbatim>\<open>io.Copy(rw, resp.Body)\<close> a write of the body to \<^verbatim>\<open>rw\<close>.\<close>

definition forwardHTTP_responseFunc :: "Proxy \<Rightarrow> string + Response \<Rightarrow> World \<Rightarrow> World" where
  "forwardHTTP_responseFunc p res w =
     (case res of
        Inl e \<Rightarrow>
          SetContextErrorWithType e HTTPDoRequestFail
            (WriteProxyErrorToResponseBody p RW 502
               (''forwardHTTP '' @ urlString (net p) (Url (Req (ctx w))) @ '' forward request failed: '' @ e) []
               (emit (WriteHeader 502) w))
      | Inr resp0 \<Rightarrow>
          (case callDuringResponse p resp0 w of
             (w1, resp) \<Rightarrow>
               let w2 = emit (WriteHeader (StatusCode resp)) (emit (CopyHeaderTo (RespHeader resp)) w1)
               in case connWrite p RW (BodyOf resp) w2 of
                    (w3, written, cerr) \<Rightarrow>
                      let w4 = w3\<lparr>ctx := (ctx w3)\<lparr>RespLength := of_nat written\<rparr>\<rparr>
                      in CloseResponseBody
                           (case cerr of None \<Rightarrow> w4
                            | Some e \<Rightarrow> SetContextErrorWithType e HTTPWriteClientFail w4)))"

definition forwardHTTP :: "Proxy \<Rightarrow> World \<Rightarrow> World" where
  "forwardHTTP p w =
     DoRequest p (forwardHTTP_responseFunc p) [] (setScheme ''http'' (emit (Enter ForwardHTTP) w))"

section \<open>MITM HTTPS forwarder\<close>

text \<open>The continuation \<^verbatim>\<open>forwardHTTPS\<close> hands to \<^verbatim>\<open>DoRequest\<close>. The response is written
  through a \<^verbatim>\<open>WriterWithLength\<close> around the TLS connection, whose \<^verbatim>\<open>Length()\<close> is the
  number of bytes that went through.\<close>

definition forwardHTTPS_responseFunc :: "Proxy \<Rightarrow> string + Response \<Rightarrow> World \<Rightarrow> World" where
  "forwardHTTPS_responseFunc p res w =
     (case res of
        Inl e \<Rightarrow>
          SetContextErrorWithType e HTTPSDoRequestFail
            (WriteProxyErrorToResponseBody p TLSClientConn 502
               (''forwardHTTPS '' @ UHost (Url (Req (ctx w))) @ '' forward request failed: '' @ e)
               ''HTTP/1.1 502 '' w)
      | Inr resp0 \<Rightarrow>
          (case callDuringResponse p resp0 w of
             (w1, resp) \<Rightarrow>
               (case connWrite p TLSClientConn (RespMsg resp) w1 of
                  (w2, n, werr) \<Rightarrow>
                    let w3 = (case werr of None \<Rightarrow> w2
                              | Some e \<Rightarrow> SetContextErrorWithType e HTTPSWriteRespFail w2)
                    in CloseResponseBody (w3\<lparr>ctx := (ctx w3)\<lparr>RespLength := of_nat n\<rparr>\<rparr>))))"

text \<open>\<^verbatim>\<open>forwardHTTPS\<close> from the TLS handshake on, that is after
  \<^verbatim>\<open>defer CloseNetConn(ctx, tlsClientConn)\<close>.\<close>

definition forwardHTTPS_tls :: "Proxy \<Rightarrow> World \<Rightarrow> World" where
  "forwardHTTPS_tls p w =
     (case tlsHandshake (net p) of
        Some e \<Rightarrow> SetContextErrorWithType e HTTPSTLSClientConnHandshakeFail w
      | None \<Rightarrow>
          (case ReadRequest (net p) of
             ReadEOF \<Rightarrow> w
           | ReadError e \<Rightarrow> SetContextErrorWithType e HTTPSReadReqFromBufFail w
           | ReadOK tlsReq0 \<Rightarrow>
               let tlsReq = tlsReq0\<lparr>RemoteAddr := RemoteAddr (Req (ctx w)),
                                     Url := (Url tlsReq0)\<lparr>Scheme := ''https'', UHost := Host tlsReq0\<rparr>\<rparr>;
                   w1 = w\<lparr>ctx := (ctx w)\<lparr>Req := tlsReq\<rparr>\<rparr>
               in DoRequest p (forwardHTTPS_responseFunc p) [TLSClientConn] w1))"

text \<open>\<^verbatim>\<open>forwardHTTPS\<close> after the hijack, that is after \<^verbatim>\<open>defer clientConn.Close()\<close>.\<close>

definition forwardHTTPS_hijacked :: "Proxy \<Rightarrow> World \<Rightarrow> World" where
  "forwardHTTPS_hijacked p w =
     (case connWrite p ClientConn (Bytes tunnelEstablishedResponseLine) w of
        (w1, _, Some e) \<Rightarrow> SetContextErrorWithType e HTTPSWriteEstRespFail w1
      | (w1, _, None) \<Rightarrow> CloseNetConn TLSClientConn (forwardHTTPS_tls p w1))"

definition forwardHTTPS :: "Proxy \<Rightarrow> World \<Rightarrow> World" where
  "forwardHTTPS p w0 =
     (let w = emit (Enter ForwardHTTPS) w0
      in case GenerateTLSConfig p (UHost (Url (Req (ctx w)))) of
           Some e \<Rightarrow>
             SetContextErrorWithType e HTTPSGenerateTLSConfigFail
               (WriteProxyErrorToResponseBody p RW 502
                  (''forwardHTTPS '' @ urlString (net p) (Url (Req (ctx w))) @ '' generate tlsConfig failed: '' @ e) []
                  (emit (WriteHeader 502) w))
         | None \<Rightarrow>
             (case hijacker p w of
                (w1, Some e) \<Rightarrow>
                  SetContextErrorWithType e HTTPSHijackClientConnFail
                    (WriteProxyErrorToResponseBody p RW 502
                       (''forwardHTTPS hijack client connection failed: '' @ e) []
                       (emit (WriteHeader 502) w1))
              | (w1, None) \<Rightarrow> connClose ClientConn (forwardHTTPS_hijacked p (setHijack w1))))"

section \<open>Opaque CONNECT tunnel\<close>

text \<open>The CONNECT request \<^verbatim>\<open>forwardTunnel\<close> sends to a parent proxy.\<close>

definition connectReq :: "string \<Rightarrow> URL \<Rightarrow> Request" where
  "connectReq host parentProxyURL =
     \<lparr>Method = ''CONNECT'',
      Url = \<lparr>Scheme = [], Opaque = host, User = None, UHost = []\<rparr>,
      Header = (case User parentProxyURL of
                  None \<Rightarrow> Map.empty
                | Some u \<Rightarrow> [''Proxy-Authorization'' \<mapsto>
                              [''Basic '' @ EncodeToString (username u @ '':'' @ password u)]]),
      Host = host,
      RemoteAddr = []\<rparr>"

text \<open>\<^verbatim>\<open>forwardTunnel\<close> after the dial, that is after \<^verbatim>\<open>defer CloseNetConn(ctx, targetConn)\<close>.\<close>

definition forwardTunnel_dialled :: "Proxy \<Rightarrow> URL option \<Rightarrow> World \<Rightarrow> World" where
  "forwardTunnel_dialled p parentProxyURL w0 =
     (let w = callDelegate DuringResponse (dDuringResponseConn (delegate p)) w0
      in case parentProxyURL of
           None \<Rightarrow>
             (case connWrite p ClientConn (Bytes tunnelEstablishedResponseLine) w of
                (w1, _, Some e) \<Rightarrow> SetContextErrorWithType e TunnelWriteEstRespFail w1
              | (w1, _, None) \<Rightarrow> transfer p ClientConn TargetConn w1)
         | Some pu \<Rightarrow>
             (case connWrite p TargetConn (ReqMsg (connectReq (UHost (Url (Req (ctx w)))) pu)) w of
                (w1, _, Some e) \<Rightarrow>
                  SetContextErrorWithType e TunnelConnectRemoteFail
                    (WriteProxyErrorToResponseBody p ClientConn 502
                       (''forwardTunnel '' @ UHost (Url (Req (ctx w1))) @ '' make connect request to remote failed: '' @ e)
                       ''HTTP/1.1 502 '' w1)
              | (w1, _, None) \<Rightarrow> transfer p ClientConn TargetConn w1))"

text \<open>\<^verbatim>\<open>forwardTunnel\<close> after the hijack, that is after \<^verbatim>\<open>defer clientConn.Close()\<close>.\<close>

definition forwardTunnel_hijacked :: "Proxy \<Rightarrow> URL option \<Rightarrow> World \<Rightarrow> World" where
  "forwardTunnel_hijacked p parentProxyURL w =
     (let targetAddr = (case parentProxyURL of None \<Rightarrow> UHost (Url (Req (ctx w))) | Some pu \<Rightarrow> UHost pu);
          derr = DialTimeout (net p) targetAddr;
          w1 = callDelegate BeforeResponse (\<lambda>c. dBeforeResponseConn (delegate p) c derr)
                 (emit (Dialled targetAddr) w)
      in if abort (ctx w1) then SetContextErrType BeforeResponseFail w1
         else (case derr of
                 Some e \<Rightarrow>
                   SetContextErrorWithType e TunnelDialRemoteServerFail
                     (WriteProxyErrorToResponseBody p ClientConn 502
                        (''forwardTunnel '' @ UHost (Url (Req (ctx w1))) @ '' dial remote server failed: '' @ e)
                        ''HTTP/1.1 502 '' w1)
               | None \<Rightarrow> CloseNetConn TargetConn (forwardTunnel_dialled p parentProxyURL w1)))"

definition forwardTunnel :: "Proxy \<Rightarrow> World \<Rightarrow> World" where
  "forwardTunnel p w0 =
     (case callParentProxy p (Some RW) (emit (Enter ForwardTunnel) w0) of
        (w, parentProxyURL, perr, handed) \<Rightarrow>
          if abort (ctx w) then SetContextErrType ParentProxyFail w
          else (case hijacker p w of
                  (w1, Some e) \<Rightarrow>
                    SetContextErrorWithType e TunnelHijackClientConnFail
                      (WriteProxyErrorToResponseBody p RW 502
                         (''forwardTunnel hijack client connection failed: '' @ e) []
                         (emit (WriteHeader 502) w1))
                | (w1, None) \<Rightarrow>
                    connClose ClientConn (forwardTunnel_hijacked p parentProxyURL (setHijack w1))))"

section \<open>WebSocket forwarders\<close>

definition websocketHandshake :: "Proxy \<Rightarrow> Request \<Rightarrow> Conn \<Rightarrow> Conn \<Rightarrow> World \<Rightarrow> World \<times> string option" where
  "websocketHandshake p req targetConn clientConn w =
     (case connWrite p targetConn (ReqMsg req) w of
        (w1, _, Some e) \<Rightarrow>
          (w1, Some (''websocketHandshake '' @ UHost (Url req) @ '' write targetConn failed: '' @ e))
      | (w1, _, None) \<Rightarrow>
          (case ReadResponse (net p) of
             Inl e \<Rightarrow>
               (w1, Some (''websocketHandshake '' @ UHost (Url req) @ '' write targetConn failed: '' @ e))
           | Inr resp \<Rightarrow>
               (case connWrite p clientConn (RespMsg resp) w1 of
                  (w2, _, Some e) \<Rightarrow>
                    (w2, Some (''websocketHandshake '' @ UHost (Url req) @ '' write handhsake response failed: '' @ e))
                | (w2, _, None) \<Rightarrow> (w2, None))))"

text \<open>\<^verbatim>\<open>serveWebsocket\<close> after the dial, that is after
  \<^verbatim>\<open>defer CloseNetConn(ctx, targetConn)\<close>. The type assertion \<^verbatim>\<open>rw.(http.Hijacker)\<close>
  panics when it fails. The client connection is closed right after the hijack
  (\<^verbatim>\<open>clientConn.Close()\<close>, not deferred). The handshake writes \<^verbatim>\<open>req\<close>, the argument of
  \<^verbatim>\<open>serveWebsocket\<close>.\<close>

definition serveWebsocket_dialled :: "Proxy \<Rightarrow> Request \<Rightarrow> World \<Rightarrow> World" where
  "serveWebsocket_dialled p req w =
     (case rwHijack (net p) of
        HijackUnsupported \<Rightarrow> emit (Panic ''httpserver does not support hijacking'') w
      | HijackError e \<Rightarrow>
          SetContextErrorWithType e HTTPWebsocketHijackFail (emit (WriteHeader 502) w)
      | HijackOK \<Rightarrow>
          let w1 = connClose ClientConn (setHijack (emit Hijacked w))
          in (case websocketHandshake p req TargetConn ClientConn w1 of
                (w2, Some e) \<Rightarrow> SetContextErrorWithType e HTTPWebsocketHandshakeFail w2
              | (w2, None) \<Rightarrow> transfer p ClientConn TargetConn w2))"

text \<open>\<^verbatim>\<open>serveWebsocket(ctx, rw, req)\<close>: \<^verbatim>\<open>req\<close> is the pointer \<^verbatim>\<open>ctx.Req\<close> held when
  \<^verbatim>\<open>forwardHTTPWebsocket\<close> called, so the request object that was handed to
  \<^verbatim>\<open>ParentProxy\<close>. The assignment \<^verbatim>\<open>ctx.Req.URL.Scheme = "ws"\<close> writes to the URL object
  of the context's request, which \<^verbatim>\<open>req\<close> sees when its URL is still that object.\<close>

definition serveWebsocket :: "Proxy \<Rightarrow> World \<Rightarrow> World" where
  "serveWebsocket p w0 =
     (case callParentProxy p (Some RW) w0 of
        (w, parentProxyURL, perr, handed) \<Rightarrow>
          if abort (ctx w) then SetContextErrType ParentProxyFail w
          else
            let w1 = setScheme ''ws'' w;
                req = (if urlShared handed then (reqObject handed)\<lparr>Url := Url (Req (ctx w1))\<rparr>
                       else reqObject handed);
                targetAddr = (case parentProxyURL of None \<Rightarrow> UHost (Url (Req (ctx w1))) | Some pu \<Rightarrow> UHost pu);
                w2 = emit (Dialled targetAddr) w1
            in (case DialTimeout (net p) targetAddr of
                  Some e \<Rightarrow>
                    SetContextErrorWithType e HTTPWebsocketDailFail (emit (WriteHeader 502) w2)
                | None \<Rightarrow> CloseNetConn TargetConn (serveWebsocket_dialled p req w2)))"

text \<open>\<^verbatim>\<open>serveWebsocketTLS\<close> after the TLS dial, that is after
  \<^verbatim>\<open>defer CloseNetConn(ctx, targetConn)\<close>.\<close>

definition serveWebsocketTLS_dialled :: "Proxy \<Rightarrow> Request \<Rightarrow> World \<Rightarrow> World" where
  "serveWebsocketTLS_dialled p wsReq0 w =
     (let wsReq = wsReq0\<lparr>Url := (Url wsReq0)\<lparr>Scheme := ''wss'', UHost := Host wsReq0\<rparr>\<rparr>;
          w1 = w\<lparr>ctx := (ctx w)\<lparr>Req := wsReq\<rparr>\<rparr>
      in (case websocketHandshake p wsReq TargetConn ClientConn w1 of
            (w2, Some e) \<Rightarrow> SetContextErrorWithType e HTTPSWebsocketHandshakeFail w2
          | (w2, None) \<Rightarrow> transfer p ClientConn TargetConn w2))"

text \<open>\<^verbatim>\<open>serveWebsocketTLS\<close> from the TLS handshake on, that is after
  \<^verbatim>\<open>defer CloseNetConn(ctx, tlsClientConn)\<close>.\<close>

definition serveWebsocketTLS_tls :: "Proxy \<Rightarrow> URL option \<Rightarrow> World \<Rightarrow> World" where
  "serveWebsocketTLS_tls p parentProxyURL w =
     (case tlsHandshake (net p) of
        Some e \<Rightarrow> SetContextErrorWithType e HTTPSWebsocketTLSClientConnHandshakeFail w
      | None \<Rightarrow>
          (case ReadRequest (net p) of
             ReadEOF \<Rightarrow> w
           | ReadError e \<Rightarrow> SetContextErrorWithType e HTTPSWebsocketReadReqFromBufFail w
           | ReadOK wsReq \<Rightarrow>
               let dialAddr = (case parentProxyURL of None \<Rightarrow> UHost (Url wsReq) | Some pu \<Rightarrow> UHost pu);
                   w1 = emit (Dialled dialAddr) w
               in (case tlsDial (net p) dialAddr of
                     Some e \<Rightarrow>
                       SetContextErrorWithType e HTTPSWebsocketDailFail (emit (WriteHeader 502) w1)
                   | None \<Rightarrow> CloseNetConn TargetConn (serveWebsocketTLS_dialled p wsReq w1))))"

text \<open>\<^verbatim>\<open>serveWebsocketTLS\<close> after the hijack, that is after \<^verbatim>\<open>defer clientConn.Close()\<close>.\<close>

definition serveWebsocketTLS_hijacked :: "Proxy \<Rightarrow> URL option \<Rightarrow> World \<Rightarrow> World" where
  "serveWebsocketTLS_hijacked p parentProxyURL w =
     (case connWrite p ClientConn (Bytes tunnelEstablishedResponseLine) w of
        (w1, _, Some e) \<Rightarrow> SetContextErrorWithType e HTTPSWebsocketWriteEstRespFail w1
      | (w1, _, None) \<Rightarrow> CloseNetConn TLSClientConn (serveWebsocketTLS_tls p parentProxyURL w1))"

definition serveWebsocketTLS :: "Proxy \<Rightarrow> World \<Rightarrow> World" where
  "serveWebsocketTLS p w0 =
     (case callParentProxy p (Some RW) w0 of
        (w, parentProxyURL, perr, handed) \<Rightarrow>
          if abort (ctx w) then SetContextErrType ParentProxyFail w
          else (case GenerateTLSConfig p (UHost (Url (Req (ctx w)))) of
                  Some e \<Rightarrow>
                    SetContextErrorWithType e HTTPSWebsocketGenerateTLSConfigFail (emit (WriteHeader 502) w)
                | None \<Rightarrow>
                    (case hijacker p w of
                       (w1, Some e) \<Rightarrow>
                         SetContextErrorWithType e HTTPSWebsocketHijackFail (emit (WriteHeader 502) w1)
                     | (w1, None) \<Rightarrow>
                         connClose ClientConn (serveWebsocketTLS_hijacked p parentProxyURL (setHijack w1)))))"

definition forwardHTTPWebsocket :: "Proxy \<Rightarrow> World \<Rightarrow> World" where
  "forwardHTTPWebsocket p w = serveWebsocket p (emit (Enter ForwardHTTPWebsocket) w)"

definition forwardHTTPSWebsocket :: "Proxy \<Rightarrow> World \<Rightarrow> World" where
  "forwardHTTPSWebsocket p w = serveWebsocketTLS p (emit (Enter ForwardHTTPSWebsocket) w)"

section \<open>Mode dispatcher\<close>

definition newContext :: "Request \<Rightarrow> Context" where
  "newContext req =
     \<lparr>Req = req, Hijack = False, MITM = False, ReqLength = 0, RespLength = 0, Closed = False,
      abort = False, errType = None, err = None\<rparr>"

text \<open>The dispatch of \<^verbatim>\<open>ServeHTTP\<close>, on the context as \<^verbatim>\<open>Connect\<close> and \<^verbatim>\<open>Auth\<close> left
  it.\<close>

definition dispatch :: "Proxy \<Rightarrow> World \<Rightarrow> World" where
  "dispatch p w =
     (if Method (Req (ctx w)) = ''CONNECT''
      then (let h = Get (Header (Req (ctx w))) ''MITM''
            in if h = ''Enabled''
               then (let w1 = w\<lparr>ctx := (ctx w)\<lparr>MITM := True\<rparr>\<rparr>
                     in if isWebSocketRequest (strings p) (Req (ctx w1)) then forwardHTTPSWebsocket p w1
                        else forwardHTTPS p w1)
               else forwardTunnel p w)
      else (if isWebSocketRequest (strings p) (Req (ctx w)) then forwardHTTPWebsocket p w
            else forwardHTTP p w))"

text \<open>\<^verbatim>\<open>ServeHTTP\<close> up to its return, and then with the deferred \<^verbatim>\<open>Finish\<close>. (The
  atomic counter \<^verbatim>\<open>clientConnNum\<close> is shared between requests and is not part of one
  request's state.)\<close>

text \<open>The first statement of \<^verbatim>\<open>ServeHTTP\<close>: an empty \<^verbatim>\<open>req.URL.Host\<close> is filled
  from \<^verbatim>\<open>req.Host\<close>.\<close>

definition populateHost :: "Request \<Rightarrow> Request" where
  "populateHost req = (if UHost (Url req) = [] then req\<lparr>Url := (Url req)\<lparr>UHost := Host req\<rparr>\<rparr> else req)"

definition ServeHTTP_body :: "Proxy \<Rightarrow> Request \<Rightarrow> World" where
  "ServeHTTP_body p req0 =
     (let req = populateHost req0;
          w0 = \<lparr>ctx = newContext req, log = [], clientClosed = False, targetClosed = False\<rparr>;
          w1 = callDelegate Connect (dConnect (delegate p)) w0
      in if abort (ctx w1) then SetContextErrType ConnectFail w1
         else (let w2 = callDelegate Auth (dAuth (delegate p)) w1
               in if abort (ctx w2) then SetContextErrType AuthFail w2
                  else dispatch p w2))"

definition ServeHTTP :: "Proxy \<Rightarrow> Request \<Rightarrow> World" where
  "ServeHTTP p req = callDelegate Finish (dFinish (delegate p)) (ServeHTTP_body p req)"

section \<open>What a run shows\<close>

text \<open>Projections of the log: the delegate callbacks that ran (with the abort flag each
  left), the handlers entered, the copies of the byte pump (destination, source, bytes),
  the requests handed to the transport, and everything sent towards a peer.\<close>

fun callbacks :: "Event list \<Rightarrow> (Callback \<times> bool) list" where
  "callbacks [] = []"
| "callbacks (Cb c a # es) = (c, a) # callbacks es"
| "callbacks (e # es) = callbacks es"

fun handlersEntered :: "Event list \<Rightarrow> Handler list" where
  "handlersEntered [] = []"
| "handlersEntered (Enter h # es) = h # handlersEntered es"
| "handlersEntered (e # es) = handlersEntered es"

fun copied :: "Event list \<Rightarrow> (Conn \<times> Conn \<times> 64 word) list" where
  "copied [] = []"
| "copied (Copied d s n # es) = (d, s, n) # copied es"
| "copied (e # es) = copied es"

fun forwarded :: "Event list \<Rightarrow> Request list" where
  "forwarded [] = []"
| "forwarded (RoundTrip r u # es) = r # forwarded es"
| "forwarded (e # es) = forwarded es"

fun isOutput :: "Event \<Rightarrow> bool" where
  "isOutput (Wrote c b) = True"
| "isOutput (WriteFailed c b) = True"
| "isOutput (WriteHeader n) = True"
| "isOutput (CopyHeaderTo h) = True"
| "isOutput e = False"

definition outputs :: "Event list \<Rightarrow> Event list" where
  "outputs es = filter isOutput es"

text \<open>The part of the log before the byte pump starts.\<close>

fun beforePump :: "Event list \<Rightarrow> Event list" where
  "beforePump [] = []"
| "beforePump (Copied d s n # es) = []"
| "beforePump (e # es) = e # beforePump es"

text \<open>The error kind that belongs to each stage of the delegate.\<close>

fun stageErr :: "Callback \<Rightarrow> ErrType option" where
  "stageErr Connect = Some ConnectFail"
| "stageErr Auth = Some AuthFail"
| "stageErr BeforeRequest = Some BeforeRequestFail"
| "stageErr ParentProxy = Some ParentProxyFail"
| "stageErr BeforeResponse = Some BeforeResponseFail"
| "stageErr DuringResponse = None"
| "stageErr Finish = None"

text \<open>A sequence of callbacks respects abort when only its last callback may have set the
  flag, and when that one did, the kind of its stage is the recorded one.\<close>

fun good :: "(Callback \<times> bool) list \<Rightarrow> ErrType option \<Rightarrow> bool" where
  "good [] et = True"
| "good [(c, a)] et = (if a then (case stageErr c of None \<Rightarrow> True | Some k \<Rightarrow> et = Some k) else True)"
| "good ((c, a) # x # xs) et = (if a then False else good (x # xs) et)"

definition cbseg :: "World \<Rightarrow> World \<Rightarrow> (Callback \<times> bool) list" where
  "cbseg w w' = drop (length (callbacks (log w))) (callbacks (log w'))"

text \<open>The events a step added to the log.\<close>

definition since :: "World \<Rightarrow> World \<Rightarrow> Event list" where
  "since w w' = drop (length (log w)) (log w')"

definition tail :: "World \<Rightarrow> World \<Rightarrow> bool" where
  "tail w w' = (\<exists>seg. callbacks (log w') = callbacks (log w) @ seg \<and>
                  good seg (errType (ctx w')) \<and> Finish \<notin> fst ` set seg)"

section \<open>The dispatch table of the specification\<close>

text \<open>The tokens of a header value are its pieces between commas, trimmed. A header
  contains a token when one of its values has a token equal to it up to case (trimming and
  case folding being those of the \<^verbatim>\<open>strings\<close> package).\<close>

definition spec_tokens :: "Strings \<Rightarrow> string \<Rightarrow> string list" where
  "spec_tokens lib v = map (TrimSpace lib) (Split v CHR '','')"

definition spec_hasToken :: "Strings \<Rightarrow> Header \<Rightarrow> string \<Rightarrow> string \<Rightarrow> bool" where
  "spec_hasToken lib h name tok =
     (\<exists>v \<in> set (case h name of None \<Rightarrow> [] | Some vs \<Rightarrow> vs).
        \<exists>t \<in> set (spec_tokens lib v). EqualFold lib tok t)"

definition spec_isWebSocketUpgrade :: "Strings \<Rightarrow> Request \<Rightarrow> bool" where
  "spec_isWebSocketUpgrade lib r =
     (spec_hasToken lib (Header r) ''Connection'' ''upgrade'' \<and>
      spec_hasToken lib (Header r) ''Upgrade'' ''websocket'')"

definition spec_route :: "Strings \<Rightarrow> Request \<Rightarrow> Handler" where
  "spec_route lib r =
     (if Method r = ''CONNECT''
      then (if Get (Header r) ''MITM'' = ''Enabled''
            then (if spec_isWebSocketUpgrade lib r then ForwardHTTPSWebsocket else ForwardHTTPS)
            else ForwardTunnel)
      else (if spec_isWebSocketUpgrade lib r then ForwardHTTPWebsocket else ForwardHTTP))"

section \<open>Scenarios\<close>

text \<open>A delegate that changes objects in place only (or not at all) leaves in the objects
  it was handed what the context shows.\<close>

definition asContext :: "Context \<Rightarrow> Handed" where
  "asContext c = \<lparr>reqObject = Req c, urlObject = Url (Req c), urlShared = True\<rparr>"

text \<open>Modelled from the spec: \<^verbatim>\<open>DefaultDelegate\<close>, the no-op delegate a proxy gets when
  the handler configuration has none, is declared outside the source files at hand.\<close>

definition DefaultDelegate :: Delegate where
  "DefaultDelegate =
     \<lparr>dConnect = (\<lambda>c. c), dAuth = (\<lambda>c. c), dBeforeRequest = (\<lambda>c. c),
      dParentProxy = (\<lambda>c x. (c, None, None, asContext c)),
      dBeforeResponse = (\<lambda>c r. (c, (\<lambda>x. x))),
      dBeforeResponseConn = (\<lambda>c e. c), dDuringResponse = (\<lambda>c r. (c, r)),
      dDuringResponseConn = (\<lambda>c. c), dFinish = (\<lambda>c. c)\<rparr>"

definition switchingProtocols :: Response where
  "switchingProtocols =
     \<lparr>StatusCode = 101,
      RespHeader = [''Connection'' \<mapsto> [''Upgrade''], ''Upgrade'' \<mapsto> [''websocket'']]\<rparr>"

definition okResponse :: Response where
  "okResponse =
     \<lparr>StatusCode = 200,
      RespHeader = [''Content-Type'' \<mapsto> [''text/plain''], ''Connection'' \<mapsto> [''close'']]\<rparr>"

definition getRequest :: Request where
  "getRequest =
     \<lparr>Method = ''GET'',
      Url = \<lparr>Scheme = ''http'', Opaque = [], User = None, UHost = ''example''\<rparr>,
      Header = [''Proxy-Connection'' \<mapsto> [''keep-alive'']],
      Host = ''example'', RemoteAddr = ''10.0.0.1:40000''\<rparr>"

definition connectRequest :: Request where
  "connectRequest =
     \<lparr>Method = ''CONNECT'',
      Url = \<lparr>Scheme = [], Opaque = [], User = None, UHost = ''example.com:443''\<rparr>,
      Header = Map.empty,
      Host = ''example.com:443'', RemoteAddr = ''10.0.0.1:40000''\<rparr>"

definition wsRequest :: Request where
  "wsRequest =
     \<lparr>Method = ''GET'',
      Url = \<lparr>Scheme = [], Opaque = [], User = None, UHost = ''example.com:80''\<rparr>,
      Header = [''Connection'' \<mapsto> [''keep-alive, Upgrade''], ''Upgrade'' \<mapsto> [''WebSocket'']],
      Host = ''example.com:80'', RemoteAddr = ''10.0.0.1:40000''\<rparr>"

text \<open>A network on which every operation succeeds: the pump copies 5 bytes from the client
  to the target and 7 bytes back.\<close>

definition okNet :: Net where
  "okNet =
     \<lparr>rwHijack = HijackOK, DialTimeout = (\<lambda>a. None), tlsDial = (\<lambda>a. None), tlsHandshake = None,
      ReadRequest = ReadOK getRequest, ReadResponse = Inr switchingProtocols,
      ioWrite = (\<lambda>c b. (case b of Bytes s \<Rightarrow> length s | _ \<Rightarrow> 64, None)),
      DumpRequestOut = (\<lambda>r. Inr (Method r @ '' / HTTP/1.1'')),
      ioCopy = (\<lambda>d s. if d = TargetConn then (5, None) else (7, None)),
      respCopyFirst = True,
      urlString = (\<lambda>u. Scheme u @ ''://'' @ UHost u)\<rparr>"

definition testProxy :: Proxy where
  "testProxy =
     \<lparr>delegate = DefaultDelegate, GenerateTLSConfig = (\<lambda>h. None),
      trRoundTrip = (\<lambda>r u e. Inr okResponse), net = okNet, strings = asciiStrings\<rparr>"

definition freshWorld :: "Request \<Rightarrow> World" where
  "freshWorld req = \<lparr>ctx = newContext req, log = [], clientClosed = False, targetClosed = False\<rparr>"

text \<open>A delegate that sets \<^verbatim>\<open>ctx.abort\<close> at one stage and does nothing else.\<close>

definition abortAt :: "Callback \<Rightarrow> Delegate" where
  "abortAt stage =
     \<lparr>dConnect = (\<lambda>c. if stage = Connect then c\<lparr>abort := True\<rparr> else c),
      dAuth = (\<lambda>c. if stage = Auth then c\<lparr>abort := True\<rparr> else c),
      dBeforeRequest = (\<lambda>c. if stage = BeforeRequest then c\<lparr>abort := True\<rparr> else c),
      dParentProxy = (\<lambda>c x. (if stage = ParentProxy then c\<lparr>abort := True\<rparr> else c, None, None,
                              asContext c)),
      dBeforeResponse = (\<lambda>c r. (if stage = BeforeResponse then c\<lparr>abort := True\<rparr> else c, (\<lambda>x. x))),
      dBeforeResponseConn = (\<lambda>c e. if stage = BeforeResponse then c\<lparr>abort := True\<rparr> else c),
      dDuringResponse = (\<lambda>c r. (if stage = DuringResponse then c\<lparr>abort := True\<rparr> else c, r)),
      dDuringResponseConn = (\<lambda>c. if stage = DuringResponse then c\<lparr>abort := True\<rparr> else c),
      dFinish = (\<lambda>c. c)\<rparr>"

text \<open>A request with two \<^verbatim>\<open>Keep-Alive\<close> lines and two \<^verbatim>\<open>MITM\<close> lines, the first of each
  with an empty value.\<close>

definition emptyFirstRequest :: Request where
  "emptyFirstRequest =
     \<lparr>Method = ''GET'',
      Url = \<lparr>Scheme = ''http'', Opaque = [], User = None, UHost = ''example''\<rparr>,
      Header = [''Keep-Alive'' \<mapsto> [[], ''timeout=5''], ''Mitm'' \<mapsto> [[], ''Enabled'']],
      Host = ''example'', RemoteAddr = ''10.0.0.1:40000''\<rparr>"

text \<open>What \<^verbatim>\<open>forwardTunnel\<close> sends once the target is dialled, and where: the
  established line to the client, or the CONNECT request to the parent proxy.\<close>

definition announceConn :: "URL option \<Rightarrow> Conn" where
  "announceConn u = (case u of None \<Rightarrow> ClientConn | Some parent \<Rightarrow> TargetConn)"

definition announcePayload :: "URL option \<Rightarrow> string \<Rightarrow> Payload" where
  "announcePayload u host =
     (case u of
        None \<Rightarrow> Bytes tunnelEstablishedResponseLine
      | Some parent \<Rightarrow> ReqMsg (connectReq host parent))"

text \<open>The bodies of the two header loops.\<close>

definition delIfSet :: "Header \<Rightarrow> string \<Rightarrow> Header" where
  "delIfSet h item = (if Get h item \<noteq> [] then Del h item else h)"

definition delToken :: "Strings \<Rightarrow> Header \<Rightarrow> string \<Rightarrow> Header" where
  "delToken lib h f = (let f' = TrimSpace lib f in if f' \<noteq> [] then Del h f' else h)"

text \<open>A parent proxy \<^verbatim>\<open>http://u:p@upstream:3128\<close>, and a delegate that resolves it.\<close>

definition parentWithAuth :: URL where
  "parentWithAuth =
     \<lparr>Scheme = ''http'', Opaque = [], User = Some \<lparr>username = ''u'', password = ''p''\<rparr>,
      UHost = ''upstream:3128''\<rparr>"

definition viaParent :: Delegate where
  "viaParent = DefaultDelegate\<lparr>dParentProxy := (\<lambda>c x. (c, Some parentWithAuth, None, asContext c))\<rparr>"

text \<open>A parent proxy \<^verbatim>\<open>http://upstream:3128\<close>, without user-info.\<close>

definition parentWithoutAuth :: URL where
  "parentWithoutAuth = \<lparr>Scheme = ''http'', Opaque = [], User = None, UHost = ''upstream:3128''\<rparr>"

definition viaOpenParent :: Delegate where
  "viaOpenParent =
     DefaultDelegate\<lparr>dParentProxy := (\<lambda>c x. (c, Some parentWithoutAuth, None, asContext c))\<rparr>"

section \<open>Invariant of the byte counters\<close>

text \<open>Every copy in the log is one of the two directions between client and target, and
  its byte count is the value of the counter of that direction.\<close>

definition pumpOK :: "World \<Rightarrow> bool" where
  "pumpOK w =
     (\<forall>(d, s, n) \<in> set (copied (log w)).
        (d = TargetConn \<and> s = ClientConn \<and> ReqLength (ctx w) = n) \<or>
        (d = ClientConn \<and> s = TargetConn \<and> RespLength (ctx w) = n))"

section \<open>How each step extends the log\<close>

lemma callbacks_append [simp]: "callbacks (xs @ ys) = callbacks xs @ callbacks ys"
  by (induction xs rule: callbacks.induct) simp_all

lemma handlersEntered_append [simp]: "handlersEntered (xs @ ys) = handlersEntered xs @ handlersEntered ys"
  by (induction xs rule: handlersEntered.induct) simp_all

lemma copied_append [simp]: "copied (xs @ ys) = copied xs @ copied ys"
  by (induction xs rule: copied.induct) simp_all

lemma emit_simps [simp]:
  "log (emit e w) = log w @ [e]" "ctx (emit e w) = ctx w"
  "clientClosed (emit e w) = clientClosed w" "targetClosed (emit e w) = targetClosed w"
  by (simp_all add: emit_def)

lemma callDelegate_simps [simp]:
  "log (callDelegate cb f w) = log w @ [Cb cb (abort (f (ctx w)))]" "ctx (callDelegate cb f w) = f (ctx w)"
  "clientClosed (callDelegate cb f w) = clientClosed w" "targetClosed (callDelegate cb f w) = targetClosed w"
  by (simp_all add: callDelegate_def Let_def)

lemma SetContextErrType_simps [simp]:
  "log (SetContextErrType t w) = log w" "ctx (SetContextErrType t w) = (ctx w)\<lparr>errType := Some t\<rparr>"
  "clientClosed (SetContextErrType t w) = clientClosed w" "targetClosed (SetContextErrType t w) = targetClosed w"
  by (simp_all add: SetContextErrType_def)

lemma SetContextErrorWithType_simps [simp]:
  "log (SetContextErrorWithType e t w) = log w"
  "ctx (SetContextErrorWithType e t w) = (ctx w)\<lparr>errType := Some t, err := Some e\<rparr>"
  "clientClosed (SetContextErrorWithType e t w) = clientClosed w"
  "targetClosed (SetContextErrorWithType e t w) = targetClosed w"
  by (simp_all add: SetContextErrorWithType_def)

lemma connClose_simps [simp]:
  "log (connClose c w) = log w @ [ConnClose c]" "ctx (connClose c w) = ctx w"
  "clientClosed (connClose c w) = (clientClosed w \<or> c = ClientConn \<or> c = TLSClientConn)"
  "targetClosed (connClose c w) = (targetClosed w \<or> c = TargetConn)"
  by (cases c; simp add: connClose_def Let_def)+

lemma setHijack_simps [simp]:
  "log (setHijack w) = log w" "ctx (setHijack w) = (ctx w)\<lparr>Hijack := True\<rparr>"
  "clientClosed (setHijack w) = clientClosed w" "targetClosed (setHijack w) = targetClosed w"
  by (simp_all add: setHijack_def)

lemma setScheme_simps [simp]:
  "log (setScheme s w) = log w"
  "ctx (setScheme s w) = (ctx w)\<lparr>Req := (Req (ctx w))\<lparr>Url := (Url (Req (ctx w)))\<lparr>Scheme := s\<rparr>\<rparr>\<rparr>"
  "clientClosed (setScheme s w) = clientClosed w" "targetClosed (setScheme s w) = targetClosed w"
  by (simp_all add: setScheme_def)

lemma addRespLength_simps [simp]:
  "log (addRespLength n w) = log w"
  "ctx (addRespLength n w) = (ctx w)\<lparr>RespLength := RespLength (ctx w) + of_nat n\<rparr>"
  "clientClosed (addRespLength n w) = clientClosed w" "targetClosed (addRespLength n w) = targetClosed w"
  by (simp_all add: addRespLength_def)

lemma CloseNetConn_simps [simp]:
  "log (CloseNetConn c w) = (if Closed (ctx w) then log w else log w @ [ConnClose c])"
  "ctx (CloseNetConn c w) = (ctx w)\<lparr>Closed := True\<rparr>"
  by (simp_all add: CloseNetConn_def)

lemma CloseResponseBody_simps [simp]:
  "log (CloseResponseBody w) = (if Closed (ctx w) then log w else log w @ [BodyClose])"
  "ctx (CloseResponseBody w) = (ctx w)\<lparr>Closed := True\<rparr>"
  "clientClosed (CloseResponseBody w) = clientClosed w" "targetClosed (CloseResponseBody w) = targetClosed w"
  by (simp_all add: CloseResponseBody_def)

lemma connWrite_simps [simp]:
  "log (fst (connWrite p c b w)) =
     log w @ [if snd (snd (connWrite p c b w)) = None then Wrote c b else WriteFailed c b]"
  "ctx (fst (connWrite p c b w)) = ctx w"
  "clientClosed (fst (connWrite p c b w)) = clientClosed w"
  "targetClosed (fst (connWrite p c b w)) = targetClosed w"
  by (simp_all add: connWrite_def split: prod.split option.split)

lemma connWrite_closed: "isClosed c w \<Longrightarrow> snd (snd (connWrite p c b w)) \<noteq> None"
  by (simp add: connWrite_def)

lemma connWrite_open:
  "\<not> isClosed c w \<Longrightarrow> snd (connWrite p c b w) = ioWrite (net p) c b"
  by (simp add: connWrite_def split: prod.split option.split)

lemma WriteProxyErrorToResponseBody_simps [simp]:
  "callbacks (log (WriteProxyErrorToResponseBody p c code msg pre w)) = callbacks (log w)"
  "handlersEntered (log (WriteProxyErrorToResponseBody p c code msg pre w)) = handlersEntered (log w)"
  "copied (log (WriteProxyErrorToResponseBody p c code msg pre w)) = copied (log w)"
  "errType (ctx (WriteProxyErrorToResponseBody p c code msg pre w)) = errType (ctx w)"
  "abort (ctx (WriteProxyErrorToResponseBody p c code msg pre w)) = abort (ctx w)"
  by (simp_all add: WriteProxyErrorToResponseBody_def Let_def case_prod_beta)

lemma good_Cons_False [simp]: "good ((c, False) # seg) et = good seg et"
  by (cases seg) simp_all

lemma tailD:
  assumes "tail w w'"
  shows "callbacks (log w') = callbacks (log w) @ cbseg w w'"
    and "good (cbseg w w') (errType (ctx w'))"
    and "Finish \<notin> fst ` set (cbseg w w')"
  using assms by (auto simp: tail_def cbseg_def)

lemma CloseNetConn_obs [simp]:
  "callbacks (log (CloseNetConn c w)) = callbacks (log w)"
  "handlersEntered (log (CloseNetConn c w)) = handlersEntered (log w)"
  "copied (log (CloseNetConn c w)) = copied (log w)"
  by simp_all

lemma CloseResponseBody_obs [simp]:
  "callbacks (log (CloseResponseBody w)) = callbacks (log w)"
  "handlersEntered (log (CloseResponseBody w)) = handlersEntered (log w)"
  "copied (log (CloseResponseBody w)) = copied (log w)"
  by simp_all

lemma connWrite_obs [simp]:
  "callbacks (log (fst (connWrite p c b w))) = callbacks (log w)"
  "handlersEntered (log (fst (connWrite p c b w))) = handlersEntered (log w)"
  "copied (log (fst (connWrite p c b w))) = copied (log w)"
  by simp_all

lemma hijacker_simps [simp]:
  "callbacks (log (fst (hijacker p w))) = callbacks (log w)"
  "handlersEntered (log (fst (hijacker p w))) = handlersEntered (log w)"
  "copied (log (fst (hijacker p w))) = copied (log w)"
  "ctx (fst (hijacker p w)) = ctx w"
  "clientClosed (fst (hijacker p w)) = clientClosed w"
  "targetClosed (fst (hijacker p w)) = targetClosed w"
  by (simp_all add: hijacker_def split: HijackResult.split)

lemma callParentProxy_simps [simp]:
  "log (fst (callParentProxy p c w)) =
     log w @ [Cb ParentProxy (abort (fst (dParentProxy (delegate p) (ctx w) c)))]"
  "ctx (fst (callParentProxy p c w)) = fst (dParentProxy (delegate p) (ctx w) c)"
  "clientClosed (fst (callParentProxy p c w)) = clientClosed w"
  "targetClosed (fst (callParentProxy p c w)) = targetClosed w"
  "snd (callParentProxy p c w) = snd (dParentProxy (delegate p) (ctx w) c)"
  by (simp_all add: callParentProxy_def split: prod.split)

lemma callDuringResponse_simps [simp]:
  "log (fst (callDuringResponse p r w)) =
     log w @ [Cb DuringResponse (abort (fst (dDuringResponse (delegate p) (ctx w) r)))]"
  "ctx (fst (callDuringResponse p r w)) = fst (dDuringResponse (delegate p) (ctx w) r)"
  "clientClosed (fst (callDuringResponse p r w)) = clientClosed w"
  "targetClosed (fst (callDuringResponse p r w)) = targetClosed w"
  "snd (callDuringResponse p r w) = snd (dDuringResponse (delegate p) (ctx w) r)"
  by (simp_all add: callDuringResponse_def split: prod.split)

lemma copyOrWarn_simps [simp]:
  "log (copyOrWarn p d s k w) = log w @ [Copied d s (fst (ioCopy (net p) d s))]"
  "clientClosed (copyOrWarn p d s k w) = clientClosed w"
  "targetClosed (copyOrWarn p d s k w) = targetClosed w"
  "abort (ctx (copyOrWarn p d s k w)) = abort (ctx w)"
  "Closed (ctx (copyOrWarn p d s k w)) = Closed (ctx w)"
  "ReqLength (ctx (copyOrWarn p d s k w)) =
     (case k of ReqLengthCounter \<Rightarrow> fst (ioCopy (net p) d s) | RespLengthCounter \<Rightarrow> ReqLength (ctx w))"
  "RespLength (ctx (copyOrWarn p d s k w)) =
     (case k of RespLengthCounter \<Rightarrow> fst (ioCopy (net p) d s) | ReqLengthCounter \<Rightarrow> RespLength (ctx w))"
  "errType (ctx (copyOrWarn p d s k w)) =
     (case snd (ioCopy (net p) d s) of None \<Rightarrow> errType (ctx w) | Some e \<Rightarrow> Some TunnelWriteConnFail)"
  by (simp_all add: copyOrWarn_def setCounter_def Let_def split: prod.split option.split Counter.split)

lemma transfer_simps [simp]:
  "log (transfer p s d w) =
     log w @ (if respCopyFirst (net p)
              then [Copied s d (fst (ioCopy (net p) s d)), Copied d s (fst (ioCopy (net p) d s))]
              else [Copied d s (fst (ioCopy (net p) d s)), Copied s d (fst (ioCopy (net p) s d))])
        @ [ConnClose s, ConnClose d]"
  "abort (ctx (transfer p s d w)) = abort (ctx w)"
  "Closed (ctx (transfer p s d w)) = Closed (ctx w)"
  "ReqLength (ctx (transfer p s d w)) = fst (ioCopy (net p) d s)"
  "RespLength (ctx (transfer p s d w)) = fst (ioCopy (net p) s d)"
  "errType (ctx (transfer p s d w)) =
     (if snd (ioCopy (net p) s d) = None \<and> snd (ioCopy (net p) d s) = None then errType (ctx w)
      else Some TunnelWriteConnFail)"
  by (simp_all add: transfer_def Let_def split: option.split)

lemma transfer_obs [simp]:
  "callbacks (log (transfer p s d w)) = callbacks (log w)"
  "handlersEntered (log (transfer p s d w)) = handlersEntered (log w)"
  by simp_all

lemma websocketHandshake_simps [simp]:
  "callbacks (log (fst (websocketHandshake p r t c w))) = callbacks (log w)"
  "handlersEntered (log (fst (websocketHandshake p r t c w))) = handlersEntered (log w)"
  "copied (log (fst (websocketHandshake p r t c w))) = copied (log w)"
  "ctx (fst (websocketHandshake p r t c w)) = ctx w"
  "clientClosed (fst (websocketHandshake p r t c w)) = clientClosed w"
  "targetClosed (fst (websocketHandshake p r t c w)) = targetClosed w"
  by (simp_all add: websocketHandshake_def case_prod_beta split: option.split sum.split)

lemma forwardHTTP_responseFunc_tail: "tail w (forwardHTTP_responseFunc p r w)"
  by (simp add: tail_def forwardHTTP_responseFunc_def case_prod_beta Let_def split: sum.split option.split)

lemma forwardHTTPS_responseFunc_tail: "tail w (forwardHTTPS_responseFunc p r w)"
  by (simp add: tail_def forwardHTTPS_responseFunc_def case_prod_beta Let_def split: sum.split option.split)

lemma DoRequest_tail:
  assumes "\<And>r w. tail w (k r w)"
  shows "tail w (DoRequest p k conn w)"
proof -
  note k = tailD [OF assms]
  show ?thesis
    by (simp add: tail_def DoRequest_def case_prod_beta Let_def k split: sum.split)
qed

lemmas forwardHTTP_responseFunc_cb = tailD [OF forwardHTTP_responseFunc_tail]
lemmas forwardHTTPS_responseFunc_cb = tailD [OF forwardHTTPS_responseFunc_tail]

lemma forwardHTTP_tail: "tail w (forwardHTTP p w)"
proof -
  note d = tailD [OF DoRequest_tail [of "forwardHTTP_responseFunc p", OF forwardHTTP_responseFunc_tail]]
  show ?thesis
    by (simp add: tail_def forwardHTTP_def d)
qed

lemma forwardHTTPS_tls_tail: "tail w (forwardHTTPS_tls p w)"
proof -
  note d = tailD [OF DoRequest_tail [of "forwardHTTPS_responseFunc p", OF forwardHTTPS_responseFunc_tail]]
  show ?thesis
    by (simp add: tail_def forwardHTTPS_tls_def Let_def d split: option.split ReadRequestResult.split)
qed

lemma forwardHTTPS_hijacked_tail: "tail w (forwardHTTPS_hijacked p w)"
proof -
  note d = tailD [OF forwardHTTPS_tls_tail]
  show ?thesis
    by (simp add: tail_def forwardHTTPS_hijacked_def case_prod_beta d split: option.split)
qed

lemma forwardHTTPS_tail: "tail w (forwardHTTPS p w)"
proof -
  note d = tailD [OF forwardHTTPS_hijacked_tail]
  show ?thesis
    by (simp add: tail_def forwardHTTPS_def case_prod_beta Let_def d split: option.split)
qed

lemma forwardTunnel_dialled_tail: "tail w (forwardTunnel_dialled p u w)"
  by (simp add: tail_def forwardTunnel_dialled_def case_prod_beta Let_def split: option.split)

lemma forwardTunnel_hijacked_tail: "tail w (forwardTunnel_hijacked p u w)"
proof -
  note d = tailD [OF forwardTunnel_dialled_tail]
  show ?thesis
    by (simp add: tail_def forwardTunnel_hijacked_def Let_def d split: option.split)
qed

lemma forwardTunnel_tail: "tail w (forwardTunnel p w)"
proof -
  note d = tailD [OF forwardTunnel_hijacked_tail]
  show ?thesis
    by (simp add: tail_def forwardTunnel_def case_prod_beta d split: option.split)
qed

lemma serveWebsocket_dialled_tail: "tail w (serveWebsocket_dialled p r w)"
  by (simp add: tail_def serveWebsocket_dialled_def case_prod_beta Let_def
      split: option.split HijackResult.split)

lemma serveWebsocket_tail: "tail w (serveWebsocket p w)"
proof -
  note d = tailD [OF serveWebsocket_dialled_tail]
  show ?thesis
    by (simp add: tail_def serveWebsocket_def case_prod_beta Let_def d split: option.split)
qed

lemma serveWebsocketTLS_dialled_tail: "tail w (serveWebsocketTLS_dialled p r w)"
  by (simp add: tail_def serveWebsocketTLS_dialled_def case_prod_beta Let_def split: option.split)

lemma serveWebsocketTLS_tls_tail: "tail w (serveWebsocketTLS_tls p u w)"
proof -
  note d = tailD [OF serveWebsocketTLS_dialled_tail]
  show ?thesis
    by (simp add: tail_def serveWebsocketTLS_tls_def Let_def d split: option.split ReadRequestResult.split)
qed

lemma serveWebsocketTLS_hijacked_tail: "tail w (serveWebsocketTLS_hijacked p u w)"
proof -
  note d = tailD [OF serveWebsocketTLS_tls_tail]
  show ?thesis
    by (simp add: tail_def serveWebsocketTLS_hijacked_def case_prod_beta d split: option.split)
qed

lemma serveWebsocketTLS_tail: "tail w (serveWebsocketTLS p w)"
proof -
  note d = tailD [OF serveWebsocketTLS_hijacked_tail]
  show ?thesis
    by (simp add: tail_def serveWebsocketTLS_def case_prod_beta d split: option.split)
qed

lemma dispatch_tail: "tail w (dispatch p w)"
proof -
  note d = tailD [OF forwardHTTP_tail] tailD [OF forwardHTTPS_tail] tailD [OF forwardTunnel_tail]
    tailD [OF serveWebsocket_tail] tailD [OF serveWebsocketTLS_tail]
  show ?thesis
    by (simp add: tail_def dispatch_def forwardHTTPWebsocket_def forwardHTTPSWebsocket_def Let_def d)
qed

lemma ServeHTTP_body_tail:
  "\<exists>seg. callbacks (log (ServeHTTP_body p req)) = seg \<and>
         good seg (errType (ctx (ServeHTTP_body p req))) \<and> Finish \<notin> fst ` set seg"
proof -
  note d = tailD [OF dispatch_tail]
  show ?thesis
    by (simp add: ServeHTTP_body_def Let_def d)
qed

lemma good_split:
  "good (pre @ (c, True) # post) et \<Longrightarrow> post = [] \<and> (\<forall>k. stageErr c = Some k \<longrightarrow> et = Some k)"
proof (induction pre)
  case Nil
  then show ?case by (cases post) (auto split: option.splits)
next
  case (Cons x pre)
  obtain c' a' where x: "x = (c', a')" by (cases x)
  from Cons.prems have "good (pre @ (c, True) # post) et"
    by (cases "pre @ (c, True) # post") (auto simp: x split: if_splits)
  then show ?case by (rule Cons.IH)
qed

section \<open>Handlers entered and bytes copied, step by step\<close>

lemma responseFunc_obs [simp]:
  "handlersEntered (log (forwardHTTP_responseFunc p r w)) = handlersEntered (log w)"
  "copied (log (forwardHTTP_responseFunc p r w)) = copied (log w)"
  "handlersEntered (log (forwardHTTPS_responseFunc p r w)) = handlersEntered (log w)"
  "copied (log (forwardHTTPS_responseFunc p r w)) = copied (log w)"
  by (simp_all add: forwardHTTP_responseFunc_def forwardHTTPS_responseFunc_def case_prod_beta Let_def
      split: sum.split option.split)

lemma DoRequest_obs:
  assumes "\<And>r w. handlersEntered (log (k r w)) = handlersEntered (log w)"
    and "\<And>r w. copied (log (k r w)) = copied (log w)"
  shows "handlersEntered (log (DoRequest p k conn w)) = handlersEntered (log w)"
    and "copied (log (DoRequest p k conn w)) = copied (log w)"
  by (simp_all add: DoRequest_def case_prod_beta Let_def assms split: sum.split)

lemmas DoRequest_HTTP_obs [simp] =
  DoRequest_obs [of "forwardHTTP_responseFunc p", OF responseFunc_obs(1) responseFunc_obs(2)]
  for p

lemmas DoRequest_HTTPS_obs [simp] =
  DoRequest_obs [of "forwardHTTPS_responseFunc p", OF responseFunc_obs(3) responseFunc_obs(4)]
  for p

lemma forwardHTTP_obs [simp]:
  "handlersEntered (log (forwardHTTP p w)) = handlersEntered (log w) @ [ForwardHTTP]"
  "copied (log (forwardHTTP p w)) = copied (log w)"
  by (simp_all add: forwardHTTP_def)

lemma forwardHTTPS_tls_obs [simp]:
  "handlersEntered (log (forwardHTTPS_tls p w)) = handlersEntered (log w)"
  "copied (log (forwardHTTPS_tls p w)) = copied (log w)"
  by (simp_all add: forwardHTTPS_tls_def Let_def split: option.split ReadRequestResult.split)

lemma forwardHTTPS_hijacked_obs [simp]:
  "handlersEntered (log (forwardHTTPS_hijacked p w)) = handlersEntered (log w)"
  "copied (log (forwardHTTPS_hijacked p w)) = copied (log w)"
  by (simp_all add: forwardHTTPS_hijacked_def case_prod_beta split: option.split)

lemma forwardHTTPS_obs [simp]:
  "handlersEntered (log (forwardHTTPS p w)) = handlersEntered (log w) @ [ForwardHTTPS]"
  "copied (log (forwardHTTPS p w)) = copied (log w)"
  by (simp_all add: forwardHTTPS_def case_prod_beta Let_def split: option.split)

lemma forwardTunnel_dialled_entered [simp]:
  "handlersEntered (log (forwardTunnel_dialled p u w)) = handlersEntered (log w)"
  by (simp add: forwardTunnel_dialled_def case_prod_beta Let_def split: option.split)

lemma forwardTunnel_hijacked_entered [simp]:
  "handlersEntered (log (forwardTunnel_hijacked p u w)) = handlersEntered (log w)"
  by (simp add: forwardTunnel_hijacked_def Let_def split: option.split)

lemma forwardTunnel_entered [simp]:
  "handlersEntered (log (forwardTunnel p w)) = handlersEntered (log w) @ [ForwardTunnel]"
  by (simp add: forwardTunnel_def case_prod_beta split: option.split)

lemma serveWebsocket_dialled_entered [simp]:
  "handlersEntered (log (serveWebsocket_dialled p r w)) = handlersEntered (log w)"
  by (simp add: serveWebsocket_dialled_def case_prod_beta Let_def split: option.split HijackResult.split)

lemma serveWebsocket_entered [simp]:
  "handlersEntered (log (serveWebsocket p w)) = handlersEntered (log w)"
  by (simp add: serveWebsocket_def case_prod_beta Let_def split: option.split)

lemma serveWebsocketTLS_dialled_entered [simp]:
  "handlersEntered (log (serveWebsocketTLS_dialled p r w)) = handlersEntered (log w)"
  by (simp add: serveWebsocketTLS_dialled_def case_prod_beta Let_def split: option.split)

lemma serveWebsocketTLS_tls_entered [simp]:
  "handlersEntered (log (serveWebsocketTLS_tls p u w)) = handlersEntered (log w)"
  by (simp add: serveWebsocketTLS_tls_def Let_def split: option.split ReadRequestResult.split)

lemma serveWebsocketTLS_hijacked_entered [simp]:
  "handlersEntered (log (serveWebsocketTLS_hijacked p u w)) = handlersEntered (log w)"
  by (simp add: serveWebsocketTLS_hijacked_def case_prod_beta split: option.split)

lemma serveWebsocketTLS_entered [simp]:
  "handlersEntered (log (serveWebsocketTLS p w)) = handlersEntered (log w)"
  by (simp add: serveWebsocketTLS_def case_prod_beta split: option.split)

lemma headerContains_spec: "headerContains lib h name tok = spec_hasToken lib h name tok"
  by (cases "h name")
     (simp_all add: headerContains_def spec_hasToken_def spec_tokens_def list_ex_iff)

lemma isWebSocketRequest_spec: "isWebSocketRequest lib r = spec_isWebSocketUpgrade lib r"
  by (simp add: isWebSocketRequest_def spec_isWebSocketUpgrade_def headerContains_spec)

lemma dispatch_entered:
  "handlersEntered (log (dispatch p w)) =
     handlersEntered (log w) @ [spec_route (strings p) (Req (ctx w))]"
  by (simp add: dispatch_def spec_route_def forwardHTTPWebsocket_def forwardHTTPSWebsocket_def
      isWebSocketRequest_spec spec_isWebSocketUpgrade_def Let_def)

lemma pumpOK_none: "copied (log w) = [] \<Longrightarrow> pumpOK w"
  by (simp add: pumpOK_def)

lemma pumpOK_close [simp]:
  "pumpOK (CloseNetConn c w) = pumpOK w" "pumpOK (connClose c w) = pumpOK w"
  by (simp_all add: pumpOK_def)

lemma forwardTunnel_dialled_pump: "copied (log w) = [] \<Longrightarrow> pumpOK (forwardTunnel_dialled p u w)"
  by (simp add: pumpOK_def forwardTunnel_dialled_def case_prod_beta Let_def split: option.split)

lemma forwardTunnel_hijacked_pump: "copied (log w) = [] \<Longrightarrow> pumpOK (forwardTunnel_hijacked p u w)"
  by (simp add: forwardTunnel_hijacked_def Let_def forwardTunnel_dialled_pump pumpOK_none split: option.split)

lemma forwardTunnel_pump: "copied (log w) = [] \<Longrightarrow> pumpOK (forwardTunnel p w)"
  by (simp add: forwardTunnel_def case_prod_beta forwardTunnel_hijacked_pump pumpOK_none split: option.split)

lemma serveWebsocket_dialled_pump: "copied (log w) = [] \<Longrightarrow> pumpOK (serveWebsocket_dialled p r w)"
  by (simp add: pumpOK_def serveWebsocket_dialled_def case_prod_beta Let_def
      split: option.split HijackResult.split)

lemma serveWebsocket_pump: "copied (log w) = [] \<Longrightarrow> pumpOK (serveWebsocket p w)"
  by (simp add: serveWebsocket_def case_prod_beta Let_def serveWebsocket_dialled_pump pumpOK_none
      split: option.split)

lemma serveWebsocketTLS_dialled_pump: "copied (log w) = [] \<Longrightarrow> pumpOK (serveWebsocketTLS_dialled p r w)"
  by (simp add: pumpOK_def serveWebsocketTLS_dialled_def case_prod_beta Let_def split: option.split)

lemma serveWebsocketTLS_tls_pump: "copied (log w) = [] \<Longrightarrow> pumpOK (serveWebsocketTLS_tls p u w)"
  by (simp add: serveWebsocketTLS_tls_def Let_def serveWebsocketTLS_dialled_pump pumpOK_none
      split: option.split ReadRequestResult.split)

lemma serveWebsocketTLS_hijacked_pump: "copied (log w) = [] \<Longrightarrow> pumpOK (serveWebsocketTLS_hijacked p u w)"
  by (simp add: serveWebsocketTLS_hijacked_def case_prod_beta serveWebsocketTLS_tls_pump pumpOK_none
      split: option.split)

lemma serveWebsocketTLS_pump: "copied (log w) = [] \<Longrightarrow> pumpOK (serveWebsocketTLS p w)"
  by (simp add: serveWebsocketTLS_def case_prod_beta serveWebsocketTLS_hijacked_pump pumpOK_none
      split: option.split)

lemma dispatch_pump: "copied (log w) = [] \<Longrightarrow> pumpOK (dispatch p w)"
  by (simp add: dispatch_def forwardHTTPWebsocket_def forwardHTTPSWebsocket_def Let_def
      forwardTunnel_pump serveWebsocket_pump serveWebsocketTLS_pump pumpOK_none)

lemma ServeHTTP_body_pump: "pumpOK (ServeHTTP_body p req)"
  by (simp add: ServeHTTP_body_def Let_def dispatch_pump pumpOK_none)

section \<open>The close-once guard, step by step\<close>

lemma closeCall_closed: "Closed (ctx w) \<Longrightarrow> closeCall c w = w"
  by (cases c) (simp_all add: CloseResponseBody_def CloseNetConn_def)

lemma closeCalls_closed: "Closed (ctx w) \<Longrightarrow> closeCalls cs w = w"
  by (induction cs) (simp_all add: closeCall_closed)

lemma closeCall_sets: "Closed (ctx (closeCall c w))"
  by (cases c) simp_all

lemma closedHistory_closed: "Closed (ctx w) \<Longrightarrow> risingEdges (closedHistory cs w) = 0"
proof (induction cs)
  case Nil
  then show ?case by simp
next
  case (Cons c cs)
  then show ?case by (cases cs) (simp_all add: closeCall_closed)
qed

lemma closedHistory_hd: "closedHistory cs w = Closed (ctx w) # tl (closedHistory cs w)"
  by (cases cs) simp_all

lemma risingEdges_history: "risingEdges (closedHistory cs w) \<le> 1"
proof (cases cs)
  case Nil
  then show ?thesis by simp
next
  case (Cons c cs')
  have "risingEdges (closedHistory cs' (closeCall c w)) = 0"
    by (rule closedHistory_closed) (rule closeCall_sets)
  moreover have "closedHistory cs w = Closed (ctx w) # closedHistory cs' (closeCall c w)"
    by (simp add: Cons)
  moreover obtain t where "closedHistory cs' (closeCall c w) = Closed (ctx (closeCall c w)) # t"
    using closedHistory_hd by blast
  ultimately show ?thesis by simp
qed

lemma closeCall_events:
  "filter isCloseEvent (log (closeCall c w)) =
     filter isCloseEvent (log w) @
       (if Closed (ctx w) then []
        else [case c of CallCloseResponseBody \<Rightarrow> BodyClose | CallCloseNetConn conn \<Rightarrow> ConnClose conn])"
  by (cases c) simp_all

lemma closeCalls_events:
  "length (filter isCloseEvent (log (closeCalls cs w))) \<le> length (filter isCloseEvent (log w)) + 1"
proof (cases cs)
  case Nil
  then show ?thesis by simp
next
  case (Cons c cs')
  have "closeCalls cs w = closeCall c w"
    by (simp add: Cons closeCalls_closed closeCall_sets)
  then show ?thesis by (simp add: closeCall_events)
qed

lemmas model_defs = ServeHTTP_def ServeHTTP_body_def populateHost_def newContext_def dispatch_def
  forwardHTTP_def forwardHTTP_responseFunc_def DoRequest_def
  forwardHTTPS_def forwardHTTPS_hijacked_def forwardHTTPS_tls_def forwardHTTPS_responseFunc_def
  forwardTunnel_def forwardTunnel_hijacked_def forwardTunnel_dialled_def
  forwardHTTPWebsocket_def forwardHTTPSWebsocket_def serveWebsocket_def serveWebsocket_dialled_def
  serveWebsocketTLS_def serveWebsocketTLS_hijacked_def serveWebsocketTLS_tls_def serveWebsocketTLS_dialled_def
  websocketHandshake_def hijacker_def WriteProxyErrorToResponseBody_def connWrite_def isClosed_def
  callParentProxy_def callDuringResponse_def transfer_def copyOrWarn_def setCounter_def

lemmas fixture_defs = testProxy_def okNet_def DefaultDelegate_def asContext_def abortAt_def getRequest_def
  connectRequest_def wsRequest_def okResponse_def switchingProtocols_def freshWorld_def

section \<open>Writes before the pump\<close>

lemma outputs_append [simp]: "outputs (xs @ ys) = outputs xs @ outputs ys"
  by (simp add: outputs_def)

lemma outputs_simps [simp]:
  "outputs [] = []"
  "outputs (e # es) = (if isOutput e then e # outputs es else outputs es)"
  by (simp_all add: outputs_def)

lemma forwarded_append [simp]: "forwarded (xs @ ys) = forwarded xs @ forwarded ys"
  by (induction xs rule: forwarded.induct) simp_all

lemma beforePump_append:
  "beforePump (xs @ ys) = (if copied xs = [] then xs @ beforePump ys else beforePump xs)"
  by (induction xs rule: beforePump.induct) simp_all

lemma hijacker_log:
  "log (fst (hijacker p w)) = (if rwHijack (net p) = HijackOK then log w @ [Hijacked] else log w)"
  "(snd (hijacker p w) = None) = (rwHijack (net p) = HijackOK)"
  by (simp_all add: hijacker_def split: HijackResult.split)

lemma hijacker_outputs [simp]: "outputs (log (fst (hijacker p w))) = outputs (log w)"
  by (simp add: hijacker_log)

lemma forwardHTTPS_tls_read_fails:
  assumes "tlsHandshake (net p) = None"
  shows "ReadRequest (net p) = ReadEOF \<Longrightarrow> forwardHTTPS_tls p w = w"
    and "ReadRequest (net p) = ReadError e \<Longrightarrow>
           forwardHTTPS_tls p w = SetContextErrorWithType e HTTPSReadReqFromBufFail w"
  using assms by (simp_all add: forwardHTTPS_tls_def)

lemma forwardHTTPS_reaches_tls:
  assumes "GenerateTLSConfig p (UHost (Url (Req (ctx w)))) = None"
    and "rwHijack (net p) = HijackOK"
    and "\<not> clientClosed w"
    and "snd (ioWrite (net p) ClientConn (Bytes tunnelEstablishedResponseLine)) = None"
  shows "forwardHTTPS p w =
           connClose ClientConn (CloseNetConn TLSClientConn (forwardHTTPS_tls p
             (fst (connWrite p ClientConn (Bytes tunnelEstablishedResponseLine)
                (setHijack (emit Hijacked (emit (Enter ForwardHTTPS) w)))))))"
    and "snd (snd (connWrite p ClientConn (Bytes tunnelEstablishedResponseLine)
                (setHijack (emit Hijacked (emit (Enter ForwardHTTPS) w))))) = None"
proof -
  have h: "hijacker p (emit (Enter ForwardHTTPS) w) = (emit Hijacked (emit (Enter ForwardHTTPS) w), None)"
    using assms(2) by (simp add: hijacker_def)
  show wr: "snd (snd (connWrite p ClientConn (Bytes tunnelEstablishedResponseLine)
                (setHijack (emit Hijacked (emit (Enter ForwardHTTPS) w))))) = None"
    using assms(3,4) by (simp add: connWrite_open isClosed_def)
  show "forwardHTTPS p w =
           connClose ClientConn (CloseNetConn TLSClientConn (forwardHTTPS_tls p
             (fst (connWrite p ClientConn (Bytes tunnelEstablishedResponseLine)
                (setHijack (emit Hijacked (emit (Enter ForwardHTTPS) w)))))))"
    using assms(1) wr by (simp add: forwardHTTPS_def forwardHTTPS_hijacked_def Let_def h case_prod_beta)
qed

lemma beforePump_close:
  "copied xs \<noteq> [] \<Longrightarrow> beforePump (xs @ ys) = beforePump xs"
  "copied (log w) \<noteq> [] \<Longrightarrow> beforePump (log (CloseNetConn c w)) = beforePump (log w)"
  by (simp_all add: beforePump_append)

lemma transfer_Req [simp]: "Req (ctx (transfer p s d w)) = Req (ctx w)"
  by (simp add: transfer_def copyOrWarn_def setCounter_def Let_def case_prod_beta
      split: option.split)

lemma connWrite_ok:
  "(snd (snd (connWrite p c b w)) = None) = (\<not> isClosed c w \<and> snd (ioWrite (net p) c b) = None)"
  by (simp add: connWrite_def split: prod.split option.split)

lemma isClosed_callDelegate [simp]: "isClosed c (callDelegate cb f w) = isClosed c w"
  by (simp add: isClosed_def split: Conn.split)

lemma WriteProxyErrorToResponseBody_log:
  "log (WriteProxyErrorToResponseBody p c code msg pre w) =
     log w @ since w (WriteProxyErrorToResponseBody p c code msg pre w)"
  by (simp add: since_def WriteProxyErrorToResponseBody_def Let_def case_prod_beta)

lemma WriteProxyErrorToResponseBody_since [simp]:
  "copied (since w (WriteProxyErrorToResponseBody p c code msg pre w)) = []"
  using WriteProxyErrorToResponseBody_simps(3) [of p c code msg pre w]
  by (simp add: WriteProxyErrorToResponseBody_log)

lemma forwardTunnel_dialled_unfold:
  "forwardTunnel_dialled p u w0 =
     (let w = callDelegate DuringResponse (dDuringResponseConn (delegate p)) w0;
          host = UHost (Url (Req (ctx w)));
          r = connWrite p (announceConn u) (announcePayload u host) w
      in if snd (snd r) = None then transfer p ClientConn TargetConn (fst r)
         else (case u of
                 None \<Rightarrow> SetContextErrorWithType (the (snd (snd r))) TunnelWriteEstRespFail (fst r)
               | Some pu \<Rightarrow>
                   SetContextErrorWithType (the (snd (snd r))) TunnelConnectRemoteFail
                     (WriteProxyErrorToResponseBody p ClientConn 502
                        (''forwardTunnel '' @ UHost (Url (Req (ctx (fst r)))) @
                           '' make connect request to remote failed: '' @ the (snd (snd r)))
                        ''HTTP/1.1 502 '' (fst r))))"
  by (cases u)
     (auto simp: forwardTunnel_dialled_def Let_def case_prod_beta announceConn_def announcePayload_def
        split: option.split)

lemma forwardTunnel_dialled_ok:
  fixes p :: Proxy and u :: "URL option" and w :: World
  defines "host \<equiv> UHost (Url (Req (dDuringResponseConn (delegate p) (ctx w))))"
  assumes c: "copied (log w) = []"
    and ok: "\<not> isClosed (announceConn u) w"
            "snd (ioWrite (net p) (announceConn u) (announcePayload u host)) = None"
  shows "outputs (log (forwardTunnel_dialled p u w)) =
           outputs (log w) @ [Wrote (announceConn u) (announcePayload u host)]"
    and "outputs (beforePump (log (forwardTunnel_dialled p u w))) =
           outputs (log w) @ [Wrote (announceConn u) (announcePayload u host)]"
    and "copied (log (forwardTunnel_dialled p u w)) \<noteq> []"
  using c ok
  by (simp_all add: forwardTunnel_dialled_unfold Let_def connWrite_ok beforePump_append host_def)

lemma forwardTunnel_dialled_failed:
  fixes p :: Proxy and u :: "URL option" and w :: World
  defines "host \<equiv> UHost (Url (Req (dDuringResponseConn (delegate p) (ctx w))))"
  assumes c: "copied (log w) = []"
    and nok: "\<not> (\<not> isClosed (announceConn u) w \<and>
               snd (ioWrite (net p) (announceConn u) (announcePayload u host)) = None)"
  shows "\<exists>rest. outputs (log (forwardTunnel_dialled p u w)) =
           outputs (log w) @ WriteFailed (announceConn u) (announcePayload u host) # rest"
    and "copied (log (forwardTunnel_dialled p u w)) = []"
    and "errType (ctx (forwardTunnel_dialled p u w)) =
           Some (case u of None \<Rightarrow> TunnelWriteEstRespFail | Some parent \<Rightarrow> TunnelConnectRemoteFail)"
proof -
  from nok have "snd (snd (connWrite p (announceConn u) (announcePayload u host)
      (callDelegate DuringResponse (dDuringResponseConn (delegate p)) w))) \<noteq> None"
    by (simp add: connWrite_ok)
  then obtain e where n: "snd (snd (connWrite p (announceConn u) (announcePayload u host)
      (callDelegate DuringResponse (dDuringResponseConn (delegate p)) w))) = Some e"
    by auto
  show "\<exists>rest. outputs (log (forwardTunnel_dialled p u w)) =
           outputs (log w) @ WriteFailed (announceConn u) (announcePayload u host) # rest"
    using n
    by (cases u)
       (simp_all add: forwardTunnel_dialled_unfold Let_def host_def WriteProxyErrorToResponseBody_log)
  show "copied (log (forwardTunnel_dialled p u w)) = []"
    using n c by (cases u) (simp_all add: forwardTunnel_dialled_unfold Let_def host_def)
  show "errType (ctx (forwardTunnel_dialled p u w)) =
           Some (case u of None \<Rightarrow> TunnelWriteEstRespFail | Some parent \<Rightarrow> TunnelConnectRemoteFail)"
    using n by (cases u) (simp_all add: forwardTunnel_dialled_unfold Let_def host_def)
qed

lemma isClosed_steps [simp]:
  "isClosed c (emit e w) = isClosed c w"
  "isClosed c (setHijack w) = isClosed c w"
  "isClosed c (fst (callParentProxy p x w)) = isClosed c w"
  by (simp_all add: isClosed_def split: Conn.split)

lemma forwardTunnel_reaches_dialled:
  fixes p :: Proxy and w :: World
  defines "c1 \<equiv> fst (dParentProxy (delegate p) (ctx w) (Some RW))"
    and "parent \<equiv> fst (snd (dParentProxy (delegate p) (ctx w) (Some RW)))"
  defines "targetAddr \<equiv> (case parent of None \<Rightarrow> UHost (Url (Req c1)) | Some pu \<Rightarrow> UHost pu)"
  defines "wD \<equiv> callDelegate BeforeResponse (\<lambda>c. dBeforeResponseConn (delegate p) c None)
                   (emit (Dialled targetAddr) (setHijack (emit Hijacked
                      (fst (callParentProxy p (Some RW) (emit (Enter ForwardTunnel) w))))))"
  assumes "\<not> abort c1"
    and "rwHijack (net p) = HijackOK"
    and "DialTimeout (net p) targetAddr = None"
    and "\<not> abort (dBeforeResponseConn (delegate p) (c1\<lparr>Hijack := True\<rparr>) None)"
  shows "forwardTunnel p w =
           connClose ClientConn (CloseNetConn TargetConn (forwardTunnel_dialled p parent wD))"
proof -
  have h: "hijacker p x = (emit Hijacked x, None)" for x
    using assms(6) by (simp add: hijacker_def)
  show ?thesis
    using assms(5,7,8)
    by (simp add: forwardTunnel_def forwardTunnel_hijacked_def case_prod_beta Let_def h
        c1_def parent_def targetAddr_def wD_def cong: option.case_cong)
qed

section \<open>The plain WebSocket path never reaches the pump\<close>

lemma websocketHandshake_closed_client:
  "clientClosed w \<Longrightarrow> snd (websocketHandshake p r t ClientConn w) \<noteq> None"
  by (simp add: websocketHandshake_def case_prod_beta connWrite_closed isClosed_def
      split: option.split sum.split)

lemma websocketHandshake_after_close:
  "snd (websocketHandshake p r t ClientConn (connClose ClientConn w)) \<noteq> None"
  by (simp add: websocketHandshake_closed_client)

lemma serveWebsocket_dialled_never_pumps:
  "copied (log (serveWebsocket_dialled p r w)) = copied (log w)"
  by (simp add: serveWebsocket_dialled_def case_prod_beta Let_def websocketHandshake_after_close
      split: option.split HijackResult.split)

lemma serveWebsocket_never_pumps: "copied (log (serveWebsocket p w)) = copied (log w)"
  by (simp add: serveWebsocket_def case_prod_beta Let_def serveWebsocket_dialled_never_pumps
      split: option.split)

section \<open>What the header loops remove\<close>

lemma hopHeaders_canonical: "k \<in> set hopHeaders \<Longrightarrow> CanonicalMIMEHeaderKey k = k"
proof -
  have "list_all (\<lambda>k. CanonicalMIMEHeaderKey k = k) hopHeaders"
    by code_simp
  then show "k \<in> set hopHeaders \<Longrightarrow> CanonicalMIMEHeaderKey k = k"
    by (simp add: list_all_iff)
qed

lemma Del_at [simp]: "Del h k (CanonicalMIMEHeaderKey k) = None"
  by (simp add: Del_def)

lemma Del_keeps_None: "h x = None \<Longrightarrow> Del h k x = None"
  by (simp add: Del_def)

lemma Get_Del_empty: "Get h k = [] \<Longrightarrow> Get (Del h j) k = []"
  by (simp add: Get_def Del_def)

lemma Get_Del_same [simp]: "Get (Del h k) k = []"
  by (simp add: Get_def Del_def)

lemma Get_None: "h (CanonicalMIMEHeaderKey k) = None \<Longrightarrow> Get h k = []"
  by (simp add: Get_def)

lemma foldl_Del_keeps_None: "h x = None \<Longrightarrow> foldl Del h ks x = None"
  by (induction ks arbitrary: h) (simp_all add: Del_keeps_None)

lemma foldl_Del_removes: "k \<in> set ks \<Longrightarrow> foldl Del h ks (CanonicalMIMEHeaderKey k) = None"
  by (induction ks arbitrary: h) (auto simp: foldl_Del_keeps_None)

lemma delHopHeadersResponse_removes:
  "k \<in> set hopHeaders \<Longrightarrow> delHopHeadersResponse h k = None"
  using foldl_Del_removes [of k hopHeaders h] by (simp add: delHopHeadersResponse_def hopHeaders_canonical)

lemma delHopHeadersResponse_keeps_None: "h x = None \<Longrightarrow> delHopHeadersResponse h x = None"
  by (simp add: delHopHeadersResponse_def foldl_Del_keeps_None)

lemma delIfSet_keeps_empty: "Get h k = [] \<Longrightarrow> Get (delIfSet h j) k = []"
  by (simp add: delIfSet_def Get_Del_empty)

lemma delIfSet_keeps_None: "h x = None \<Longrightarrow> delIfSet h j x = None"
  by (simp add: delIfSet_def Del_keeps_None)

lemma foldl_delIfSet_keeps_empty: "Get h k = [] \<Longrightarrow> Get (foldl delIfSet h ks) k = []"
  by (induction ks arbitrary: h) (simp_all add: delIfSet_keeps_empty)

lemma foldl_delIfSet_keeps_None: "h x = None \<Longrightarrow> foldl delIfSet h ks x = None"
  by (induction ks arbitrary: h) (simp_all add: delIfSet_keeps_None)

lemma foldl_delIfSet_empties: "k \<in> set ks \<Longrightarrow> Get (foldl delIfSet h ks) k = []"
proof (induction ks arbitrary: h)
  case Nil
  then show ?case by simp
next
  case (Cons j ks)
  show ?case
  proof (cases "k = j")
    case True
    have "Get (delIfSet h j) j = []" by (simp add: delIfSet_def)
    then show ?thesis using True by (simp add: foldl_delIfSet_keeps_empty)
  next
    case False
    with Cons show ?thesis by simp
  qed
qed

lemma delHopHeadersRequest_fold: "delHopHeadersRequest h = foldl delIfSet h hopHeaders"
  by (simp add: delHopHeadersRequest_def delIfSet_def [abs_def])

lemma delHopHeadersRequest_empties: "k \<in> set hopHeaders \<Longrightarrow> Get (delHopHeadersRequest h) k = []"
  by (simp add: delHopHeadersRequest_fold foldl_delIfSet_empties)

lemma delHopHeadersRequest_keeps_None: "h x = None \<Longrightarrow> delHopHeadersRequest h x = None"
  by (simp add: delHopHeadersRequest_fold foldl_delIfSet_keeps_None)

lemma delHopHeadersRequest_keeps_empty: "Get h k = [] \<Longrightarrow> Get (delHopHeadersRequest h) k = []"
  by (simp add: delHopHeadersRequest_fold foldl_delIfSet_keeps_empty)

lemma delToken_keeps_None: "h x = None \<Longrightarrow> delToken lib h f x = None"
  by (simp add: delToken_def Let_def Del_keeps_None)

lemma foldl_delToken_keeps_None: "h x = None \<Longrightarrow> foldl (delToken lib) h fs x = None"
  by (induction fs arbitrary: h) (simp_all add: delToken_keeps_None)

lemma foldl_delToken_removes:
  "f \<in> set fs \<Longrightarrow> TrimSpace lib f \<noteq> [] \<Longrightarrow>
     foldl (delToken lib) h fs (CanonicalMIMEHeaderKey (TrimSpace lib f)) = None"
proof (induction fs arbitrary: h)
  case Nil
  then show ?case by simp
next
  case (Cons g fs)
  show ?case
  proof (cases "f = g")
    case True
    with Cons.prems have "delToken lib h g (CanonicalMIMEHeaderKey (TrimSpace lib f)) = None"
      by (simp add: delToken_def)
    then show ?thesis by (simp add: foldl_delToken_keeps_None)
  next
    case False
    with Cons show ?thesis by simp
  qed
qed

lemma removeConnectionHeaders_fold:
  "removeConnectionHeaders lib h =
     (if Get h ''Connection'' = [] then h
      else foldl (delToken lib) h (Split (Get h ''Connection'') CHR '',''))"
  by (simp add: removeConnectionHeaders_def delToken_def [abs_def] Let_def)

lemma removeConnectionHeaders_removes:
  "Get h ''Connection'' \<noteq> [] \<Longrightarrow>
   f \<in> set (Split (Get h ''Connection'') CHR '','') \<Longrightarrow> TrimSpace lib f \<noteq> [] \<Longrightarrow>
     removeConnectionHeaders lib h (CanonicalMIMEHeaderKey (TrimSpace lib f)) = None"
  by (simp add: removeConnectionHeaders_fold foldl_delToken_removes)

lemma removeConnectionHeaders_keeps_None: "h x = None \<Longrightarrow> removeConnectionHeaders lib h x = None"
  by (simp add: removeConnectionHeaders_fold foldl_delToken_keeps_None)

lemma removeMITMHeaders_empties: "Get (removeMITMHeaders h) ''MITM'' = []"
  by (simp add: removeMITMHeaders_def)

lemma removeMITMHeaders_Connection: "Get (removeMITMHeaders h) ''Connection'' = Get h ''Connection''"
proof -
  have "CanonicalMIMEHeaderKey ''MITM'' \<noteq> CanonicalMIMEHeaderKey ''Connection''"
    by code_simp
  then show ?thesis
    by (simp add: removeMITMHeaders_def Get_def Del_def)
qed

lemma CloneHeader_id [simp]: "CloneHeader h = h"
  by (rule ext) (simp add: CloneHeader_def split: option.split)

lemma removeConnectionHeaders_keeps_empty:
  "Get h k = [] \<Longrightarrow> Get (removeConnectionHeaders lib h) k = []"
proof -
  have step: "Get h k = [] \<Longrightarrow> Get (delToken lib h f) k = []" for h f
    by (simp add: delToken_def Let_def Get_Del_empty)
  have "Get h k = [] \<Longrightarrow> Get (foldl (delToken lib) h fs) k = []" for fs
    by (induction fs arbitrary: h) (simp_all add: step)
  then show "Get h k = [] \<Longrightarrow> Get (removeConnectionHeaders lib h) k = []"
    by (simp add: removeConnectionHeaders_fold)
qed

text \<open>The header \<^verbatim>\<open>DoRequest\<close> puts on the outgoing request: no \<^verbatim>\<open>MITM\<close> value and no
  hop-by-hop value that \<^verbatim>\<open>Get\<close> can see, and no header named by a token of the first
  \<^verbatim>\<open>Connection\<close> value.\<close>

lemma request_header_stripping:
  fixes h :: Header and lib :: Strings
  defines "hdr \<equiv> delHopHeadersRequest (removeConnectionHeaders lib (removeMITMHeaders (CloneHeader h)))"
  shows "Get hdr ''MITM'' = []"
    and "k \<in> set hopHeaders \<Longrightarrow> Get hdr k = []"
    and "Get h ''Connection'' \<noteq> [] \<Longrightarrow>
         f \<in> set (Split (Get h ''Connection'') CHR '','') \<Longrightarrow> TrimSpace lib f \<noteq> [] \<Longrightarrow>
           hdr (CanonicalMIMEHeaderKey (TrimSpace lib f)) = None"
proof -
  show "Get hdr ''MITM'' = []"
    by (simp add: hdr_def delHopHeadersRequest_keeps_empty removeConnectionHeaders_keeps_empty
        removeMITMHeaders_empties)
  show "k \<in> set hopHeaders \<Longrightarrow> Get hdr k = []"
    by (simp add: hdr_def delHopHeadersRequest_empties)
  show "Get h ''Connection'' \<noteq> [] \<Longrightarrow>
         f \<in> set (Split (Get h ''Connection'') CHR '','') \<Longrightarrow> TrimSpace lib f \<noteq> [] \<Longrightarrow>
           hdr (CanonicalMIMEHeaderKey (TrimSpace lib f)) = None"
    by (simp add: hdr_def delHopHeadersRequest_keeps_None removeConnectionHeaders_removes
        removeMITMHeaders_Connection)
qed

text \<open>The header \<^verbatim>\<open>DoRequest\<close> leaves on a successful response: no hop-by-hop header and
  no header named by a token of the first \<^verbatim>\<open>Connection\<close> value.\<close>

lemma response_header_stripping:
  fixes h :: Header and lib :: Strings
  defines "hdr \<equiv> delHopHeadersResponse (removeConnectionHeaders lib h)"
  shows "k \<in> set hopHeaders \<Longrightarrow> hdr k = None"
    and "Get h ''Connection'' \<noteq> [] \<Longrightarrow>
         f \<in> set (Split (Get h ''Connection'') CHR '','') \<Longrightarrow> TrimSpace lib f \<noteq> [] \<Longrightarrow>
           hdr (CanonicalMIMEHeaderKey (TrimSpace lib f)) = None"
  by (simp_all add: hdr_def delHopHeadersResponse_removes delHopHeadersResponse_keeps_None
      removeConnectionHeaders_removes)

text \<open>The request \<^verbatim>\<open>DoRequest\<close> hands to the transport, when it gets that far, has that
  header, computed from the context's request as \<^verbatim>\<open>BeforeRequest\<close> left it.\<close>

lemma DoRequest_forwarded:
  assumes "\<And>r w. forwarded (log (k r w)) = forwarded (log w)"
  shows "map Header (forwarded (log (DoRequest p k conn w))) = map Header (forwarded (log w)) \<or>
         map Header (forwarded (log (DoRequest p k conn w))) =
           map Header (forwarded (log w)) @
             [delHopHeadersRequest (removeConnectionHeaders (strings p) (removeMITMHeaders
                (Header (Req (dBeforeRequest (delegate p) (ctx w))))))]"
  by (simp add: DoRequest_def case_prod_beta Let_def assms split: sum.split)

section \<open>Claims\<close>

subsection \<open>Mode dispatcher\<close>

text \<open>
  C1 (as amended). \<^verbatim>\<open>ServeHTTP\<close> enters no handler when the delegate sets abort in
  \<^verbatim>\<open>Connect\<close> or in \<^verbatim>\<open>Auth\<close>; otherwise it enters exactly one handler, the one the
  dispatch table gives for the request as the two callbacks left it: CONNECT with a
  \<^verbatim>\<open>MITM\<close> header equal to \<^verbatim>\<open>Enabled\<close> goes to the MITM HTTPS forwarder, or to the MITM
  WebSocket forwarder when the request is a WebSocket upgrade; CONNECT without that header
  goes to the opaque tunnel; any other method goes to the plain WebSocket forwarder when it
  is a WebSocket upgrade and to the plain HTTP forwarder otherwise. A request is a WebSocket
  upgrade exactly when its \<^verbatim>\<open>Connection\<close> header contains the token \<^verbatim>\<open>upgrade\<close> and its
  \<^verbatim>\<open>Upgrade\<close> header the token \<^verbatim>\<open>websocket\<close> (values split at commas, trimmed, compared
  up to case).
\<close>

theorem ServeHTTP_dispatch_table:
  "handlersEntered (log (ServeHTTP p req)) =
     (let c1 = dConnect (delegate p) (newContext (populateHost req));
          c2 = dAuth (delegate p) c1
      in if abort c1 \<or> abort c2 then [] else [spec_route (strings p) (Req c2)])"
  by (simp add: ServeHTTP_def ServeHTTP_body_def Let_def dispatch_entered)

text \<open>The table at a WebSocket upgrade sent with \<^verbatim>\<open>GET\<close> through the no-op delegate.\<close>

theorem ServeHTTP_dispatch_table_witness:
  "handlersEntered (log (ServeHTTP testProxy wsRequest)) = [ForwardHTTPWebsocket]
   \<and> spec_isWebSocketUpgrade (strings testProxy) wsRequest"
proof -
  have r: "(let c1 = dConnect (delegate testProxy) (newContext (populateHost wsRequest));
                c2 = dAuth (delegate testProxy) c1
            in if abort c1 \<or> abort c2 then [] else [spec_route (strings testProxy) (Req c2)])
          = [ForwardHTTPWebsocket]"
    by code_simp
  have u: "spec_isWebSocketUpgrade (strings testProxy) wsRequest"
    by code_simp
  from trans [OF ServeHTTP_dispatch_table r] u show ?thesis by simp
qed

text \<open>C1 as stated, for every inbound request, fails on a request the delegate refuses in
  \<^verbatim>\<open>Connect\<close>: no handler is entered.\<close>

theorem ServeHTTP_aborted_counterexample:
  "handlersEntered (log (ServeHTTP (testProxy\<lparr>delegate := abortAt Connect\<rparr>) getRequest)) = []
   \<and> handlersEntered (log (ServeHTTP (testProxy\<lparr>delegate := abortAt Connect\<rparr>) getRequest))
       \<noteq> [spec_route (strings (testProxy\<lparr>delegate := abortAt Connect\<rparr>)) getRequest]"
  by code_simp

subsection \<open>Header stripping in the request transport\<close>

text \<open>
  C2 (the code at the failing input). The claim is that a request forwarded by
  \<^verbatim>\<open>DoRequest\<close> carries no \<^verbatim>\<open>MITM\<close> header and no hop-by-hop header. On a request whose
  first \<^verbatim>\<open>Keep-Alive\<close> value and first \<^verbatim>\<open>MITM\<close> value are empty, \<^verbatim>\<open>Header.Get\<close> returns
  the empty string, the guards \<^verbatim>\<open>Get(item) != ""\<close> skip the deletion, and the request
  handed to the transport still has both headers with all their values.
\<close>

theorem DoRequest_forwards_hop_header_with_empty_first_value:
  "map (\<lambda>r. (Header r ''Keep-Alive'', Header r ''Mitm''))
     (forwarded (log (ServeHTTP testProxy emptyFirstRequest)))
   = [(Some [[], ''timeout=5''], Some [[], ''Enabled''])]
   \<and> ''Keep-Alive'' \<in> set hopHeaders
   \<and> CanonicalMIMEHeaderKey ''MITM'' = ''Mitm''"
  by code_simp

subsection \<open>Delegate callbacks\<close>

text \<open>
  C3. In every run of \<^verbatim>\<open>ServeHTTP\<close> the delegate's \<^verbatim>\<open>Finish\<close> runs exactly once. When a
  callback other than \<^verbatim>\<open>Finish\<close> returns with abort set, the only callback that runs
  after it is \<^verbatim>\<open>Finish\<close>, and if the stage has an error kind (\<^verbatim>\<open>ConnectFail\<close>,
  \<^verbatim>\<open>AuthFail\<close>, \<^verbatim>\<open>BeforeRequestFail\<close>, \<^verbatim>\<open>ParentProxyFail\<close>, \<^verbatim>\<open>BeforeResponseFail\<close>) that
  kind is the one on the context when \<^verbatim>\<open>ServeHTTP\<close> returns to its deferred \<^verbatim>\<open>Finish\<close>.
\<close>

theorem finish_once_abort_stops:
  "length (filter (\<lambda>x. fst x = Finish) (callbacks (log (ServeHTTP p req)))) = 1
   \<and> (\<forall>pre c post.
         callbacks (log (ServeHTTP p req)) = pre @ (c, True) # post \<and> c \<noteq> Finish \<longrightarrow>
           map fst post = [Finish] \<and>
           (\<forall>k. stageErr c = Some k \<longrightarrow> errType (ctx (ServeHTTP_body p req)) = Some k))"
proof -
  define seg where "seg = callbacks (log (ServeHTTP_body p req))"
  define a where "a = abort (dFinish (delegate p) (ctx (ServeHTTP_body p req)))"
  have g: "good seg (errType (ctx (ServeHTTP_body p req)))" and nf: "Finish \<notin> fst ` set seg"
    using ServeHTTP_body_tail [of p req] by (simp_all add: seg_def)
  have all: "callbacks (log (ServeHTTP p req)) = seg @ [(Finish, a)]"
    by (simp add: ServeHTTP_def seg_def a_def)
  from nf have "filter (\<lambda>x. fst x = Finish) seg = []"
    by (force simp: filter_empty_conv)
  then have one: "length (filter (\<lambda>x. fst x = Finish) (callbacks (log (ServeHTTP p req)))) = 1"
    by (simp add: all)
  have stop: "map fst post = [Finish] \<and>
      (\<forall>k. stageErr c = Some k \<longrightarrow> errType (ctx (ServeHTTP_body p req)) = Some k)"
    if eq: "callbacks (log (ServeHTTP p req)) = pre @ (c, True) # post" and c: "c \<noteq> Finish"
    for pre c post
  proof (cases post rule: rev_cases)
    case Nil
    with eq all have "seg @ [(Finish, a)] = pre @ [(c, True)]" by simp
    then have "(Finish, a) = (c, True)" by simp
    with c show ?thesis by simp
  next
    case (snoc post' x)
    with eq all have "seg @ [(Finish, a)] = (pre @ (c, True) # post') @ [x]" by simp
    then have s: "seg = pre @ (c, True) # post'" and x: "x = (Finish, a)" by simp_all
    from g s have "post' = [] \<and> (\<forall>k. stageErr c = Some k \<longrightarrow> errType (ctx (ServeHTTP_body p req)) = Some k)"
      using good_split by blast
    with snoc x show ?thesis by simp
  qed
  from one stop show ?thesis by blast
qed

text \<open>A delegate that aborts in \<^verbatim>\<open>BeforeRequest\<close>: the callbacks are \<^verbatim>\<open>Connect\<close>,
  \<^verbatim>\<open>Auth\<close>, \<^verbatim>\<open>BeforeRequest\<close>, \<^verbatim>\<open>Finish\<close>, and the kind is \<^verbatim>\<open>BeforeRequestFail\<close>.\<close>

theorem finish_once_abort_stops_witness:
  "callbacks (log (ServeHTTP (testProxy\<lparr>delegate := abortAt BeforeRequest\<rparr>) getRequest))
     = [(Connect, False), (Auth, False)] @ (BeforeRequest, True) # [(Finish, True)]
   \<and> BeforeRequest \<noteq> Finish
   \<and> stageErr BeforeRequest = Some BeforeRequestFail
   \<and> errType (ctx (ServeHTTP_body (testProxy\<lparr>delegate := abortAt BeforeRequest\<rparr>) getRequest))
       = Some BeforeRequestFail"
proof -
  have e: "callbacks (log (ServeHTTP (testProxy\<lparr>delegate := abortAt BeforeRequest\<rparr>) getRequest))
     = [(Connect, False), (Auth, False)] @ (BeforeRequest, True) # [(Finish, True)]"
    by code_simp
  from finish_once_abort_stops [of "testProxy\<lparr>delegate := abortAt BeforeRequest\<rparr>" getRequest] e
  have "errType (ctx (ServeHTTP_body (testProxy\<lparr>delegate := abortAt BeforeRequest\<rparr>) getRequest))
       = Some BeforeRequestFail"
    by (metis Callback.distinct(29) stageErr.simps(3))
  with e show ?thesis by simp
qed

subsection \<open>Opaque CONNECT tunnel\<close>

text \<open>
  C4 (as amended). In \<^verbatim>\<open>forwardTunnel\<close>, after a successful dial on which the delegate's
  \<^verbatim>\<open>BeforeResponse\<close> does not set abort, the first thing sent is one write. With no parent
  proxy resolved it is the bytes \<^verbatim>\<open>HTTP/1.1 200 Connection established\<close> followed by two
  CR LF, written to the client. With a parent proxy it is a CONNECT request written to the
  upstream, whose \<^verbatim>\<open>Host\<close> and \<^verbatim>\<open>URL.Opaque\<close> are \<^verbatim>\<open>Req.URL.Host\<close> and whose only
  header is \<^verbatim>\<open>Proxy-Authorization: Basic base64(user:pass)\<close>, present exactly when the
  parent URL has user-info. When the write succeeds the byte pump starts, and that write is
  all that was sent before it (with a parent proxy, nothing to the client); when the write
  fails the pump does not start.
\<close>

theorem forwardTunnel_after_dial:
  fixes p :: Proxy and w :: World
  defines "c1 \<equiv> fst (dParentProxy (delegate p) (ctx w) (Some RW))"
    and "parent \<equiv> fst (snd (dParentProxy (delegate p) (ctx w) (Some RW)))"
  defines "targetAddr \<equiv> (case parent of None \<Rightarrow> UHost (Url (Req c1)) | Some pu \<Rightarrow> UHost pu)"
    and "c2 \<equiv> dBeforeResponseConn (delegate p) (c1\<lparr>Hijack := True\<rparr>) None"
  defines "host \<equiv> UHost (Url (Req (dDuringResponseConn (delegate p) c2)))"
  defines "conn \<equiv> (case parent of None \<Rightarrow> ClientConn | Some pu \<Rightarrow> TargetConn)"
    and "payload \<equiv>
      (case parent of
         None \<Rightarrow>
           Bytes (''HTTP/1.1 200 Connection established'' @ [CHR 0x0D, CHR 0x0A, CHR 0x0D, CHR 0x0A])
       | Some pu \<Rightarrow>
           ReqMsg
             \<lparr>Method = ''CONNECT'',
              Url = \<lparr>Scheme = [], Opaque = host, User = None, UHost = []\<rparr>,
              Header =
                (case User pu of
                   None \<Rightarrow> Map.empty
                 | Some u \<Rightarrow>
                     [''Proxy-Authorization'' \<mapsto>
                        [''Basic '' @ EncodeToString (username u @ '':'' @ password u)]]),
              Host = host,
              RemoteAddr = []\<rparr>)"
  defines "ok \<equiv> \<not> isClosed conn w \<and> snd (ioWrite (net p) conn payload) = None"
  assumes "copied (log w) = []"
    and "\<not> abort c1"
    and "rwHijack (net p) = HijackOK"
    and "DialTimeout (net p) targetAddr = None"
    and "\<not> abort c2"
  shows "(\<exists>rest. outputs (log (forwardTunnel p w)) =
            outputs (log w) @ (if ok then Wrote conn payload else WriteFailed conn payload) # rest)
       \<and> (ok \<longrightarrow>
            outputs (beforePump (log (forwardTunnel p w))) = outputs (log w) @ [Wrote conn payload] \<and>
            outputs (log (forwardTunnel p w)) = outputs (log w) @ [Wrote conn payload] \<and>
            copied (log (forwardTunnel p w)) \<noteq> [])
       \<and> (\<not> ok \<longrightarrow> copied (log (forwardTunnel p w)) = [])"
proof -
  define wD where "wD = callDelegate BeforeResponse (\<lambda>c. dBeforeResponseConn (delegate p) c None)
                   (emit (Dialled targetAddr) (setHijack (emit Hijacked
                      (fst (callParentProxy p (Some RW) (emit (Enter ForwardTunnel) w))))))"
  have eq: "forwardTunnel p w =
      connClose ClientConn (CloseNetConn TargetConn (forwardTunnel_dialled p parent wD))"
    using assms(10-13) forwardTunnel_reaches_dialled [of p w]
    by (simp add: c1_def parent_def targetAddr_def c2_def wD_def cong: option.case_cong)
  have cD: "copied (log wD) = []" and oD: "outputs (log wD) = outputs (log w)"
    and xD: "ctx wD = c2" and kD: "isClosed c wD = isClosed c w" for c
    using assms(9) by (simp_all add: wD_def c1_def c2_def)
  have cn: "conn = announceConn parent"
    by (simp add: conn_def announceConn_def)
  have pl: "payload = announcePayload parent (UHost (Url (Req (dDuringResponseConn (delegate p) (ctx wD)))))"
    by (simp add: payload_def announcePayload_def connectReq_def tunnelEstablishedResponseLine_def
        host_def xD split: option.split)
  show ?thesis
  proof (cases ok)
    case True
    then have o: "\<not> isClosed (announceConn parent) wD"
      "snd (ioWrite (net p) (announceConn parent)
         (announcePayload parent (UHost (Url (Req (dDuringResponseConn (delegate p) (ctx wD))))))) = None"
      by (simp_all add: ok_def kD cn [symmetric] pl [symmetric])
    note d = forwardTunnel_dialled_ok [OF cD o]
    from d(3) have "beforePump (log (connClose ClientConn (CloseNetConn TargetConn
        (forwardTunnel_dialled p parent wD)))) = beforePump (log (forwardTunnel_dialled p parent wD))"
      by (simp add: beforePump_close)
    with True d show ?thesis
      by (simp add: eq oD cn [symmetric] pl [symmetric])
  next
    case False
    then have o: "\<not> (\<not> isClosed (announceConn parent) wD \<and>
      snd (ioWrite (net p) (announceConn parent)
         (announcePayload parent (UHost (Url (Req (dDuringResponseConn (delegate p) (ctx wD))))))) = None)"
      by (simp add: ok_def kD cn [symmetric] pl [symmetric])
    note d = forwardTunnel_dialled_failed [OF cD o]
    from d(1) obtain rest where "outputs (log (forwardTunnel_dialled p parent wD)) =
        outputs (log wD) @ WriteFailed (announceConn parent)
          (announcePayload parent (UHost (Url (Req (dDuringResponseConn (delegate p) (ctx wD)))))) # rest"
      by blast
    with False d(2) show ?thesis
      by (simp add: eq oD cn [symmetric] pl [symmetric])
  qed
qed

text \<open>Three runs on a network where every operation succeeds: no parent proxy, the parent
  \<^verbatim>\<open>http://upstream:3128\<close>, and the parent \<^verbatim>\<open>http://u:p@upstream:3128\<close>, whose upstream
  receives the CONNECT for \<^verbatim>\<open>example.com:443\<close> with \<^verbatim>\<open>Basic dTpw\<close>.\<close>

theorem forwardTunnel_after_dial_witness:
  "rwHijack (net testProxy) = HijackOK
   \<and> DialTimeout (net testProxy) ''example.com:443'' = None
   \<and> DialTimeout (net testProxy) ''upstream:3128'' = None
   \<and> outputs (beforePump (log (forwardTunnel testProxy (freshWorld connectRequest)))) =
       [Wrote ClientConn
          (Bytes (''HTTP/1.1 200 Connection established'' @ [CHR 0x0D, CHR 0x0A, CHR 0x0D, CHR 0x0A]))]
   \<and> copied (log (forwardTunnel testProxy (freshWorld connectRequest))) \<noteq> []
   \<and> outputs (beforePump (log (forwardTunnel (testProxy\<lparr>delegate := viaOpenParent\<rparr>)
         (freshWorld connectRequest)))) =
       [Wrote TargetConn
          (ReqMsg
             \<lparr>Method = ''CONNECT'',
              Url = \<lparr>Scheme = [], Opaque = ''example.com:443'', User = None, UHost = []\<rparr>,
              Header = Map.empty,
              Host = ''example.com:443'', RemoteAddr = []\<rparr>)]
   \<and> copied (log (forwardTunnel (testProxy\<lparr>delegate := viaOpenParent\<rparr>)
         (freshWorld connectRequest))) \<noteq> []
   \<and> outputs (beforePump (log (forwardTunnel (testProxy\<lparr>delegate := viaParent\<rparr>)
         (freshWorld connectRequest)))) =
       [Wrote TargetConn
          (ReqMsg
             \<lparr>Method = ''CONNECT'',
              Url = \<lparr>Scheme = [], Opaque = ''example.com:443'', User = None, UHost = []\<rparr>,
              Header = [''Proxy-Authorization'' \<mapsto> [''Basic dTpw'']],
              Host = ''example.com:443'', RemoteAddr = []\<rparr>)]
   \<and> copied (log (forwardTunnel (testProxy\<lparr>delegate := viaParent\<rparr>)
         (freshWorld connectRequest))) \<noteq> []"
proof -
  have enc: "EncodeToString ''u:p'' = ''dTpw''"
    by code_simp
  note defs = testProxy_def okNet_def DefaultDelegate_def asContext_def freshWorld_def
    connectRequest_def newContext_def isClosed_def viaOpenParent_def viaParent_def
    parentWithoutAuth_def parentWithAuth_def
  have direct:
    "outputs (beforePump (log (forwardTunnel testProxy (freshWorld connectRequest)))) =
       [Wrote ClientConn
          (Bytes (''HTTP/1.1 200 Connection established'' @ [CHR 0x0D, CHR 0x0A, CHR 0x0D, CHR 0x0A]))]
     \<and> copied (log (forwardTunnel testProxy (freshWorld connectRequest))) \<noteq> []"
    using forwardTunnel_after_dial [of "freshWorld connectRequest" testProxy]
    by (simp add: defs)
  have noauth:
    "outputs (beforePump (log (forwardTunnel (testProxy\<lparr>delegate := viaOpenParent\<rparr>)
         (freshWorld connectRequest)))) =
       [Wrote TargetConn
          (ReqMsg
             \<lparr>Method = ''CONNECT'',
              Url = \<lparr>Scheme = [], Opaque = ''example.com:443'', User = None, UHost = []\<rparr>,
              Header = Map.empty,
              Host = ''example.com:443'', RemoteAddr = []\<rparr>)]
     \<and> copied (log (forwardTunnel (testProxy\<lparr>delegate := viaOpenParent\<rparr>)
         (freshWorld connectRequest))) \<noteq> []"
    using forwardTunnel_after_dial [of "freshWorld connectRequest" "testProxy\<lparr>delegate := viaOpenParent\<rparr>"]
    by (simp add: defs)
  have auth:
    "outputs (beforePump (log (forwardTunnel (testProxy\<lparr>delegate := viaParent\<rparr>)
         (freshWorld connectRequest)))) =
       [Wrote TargetConn
          (ReqMsg
             \<lparr>Method = ''CONNECT'',
              Url = \<lparr>Scheme = [], Opaque = ''example.com:443'', User = None, UHost = []\<rparr>,
              Header = [''Proxy-Authorization'' \<mapsto> [''Basic dTpw'']],
              Host = ''example.com:443'', RemoteAddr = []\<rparr>)]
     \<and> copied (log (forwardTunnel (testProxy\<lparr>delegate := viaParent\<rparr>)
         (freshWorld connectRequest))) \<noteq> []"
    using forwardTunnel_after_dial [of "freshWorld connectRequest" "testProxy\<lparr>delegate := viaParent\<rparr>"]
    by (simp add: defs enc)
  have net: "rwHijack (net testProxy) = HijackOK"
    "DialTimeout (net testProxy) ''example.com:443'' = None"
    "DialTimeout (net testProxy) ''upstream:3128'' = None"
    by (simp_all add: testProxy_def okNet_def)
  from net direct noauth auth show ?thesis
    by blast
qed

text \<open>C4 as stated, for every successful dial, fails when the delegate sets abort in
  \<^verbatim>\<open>BeforeResponse\<close>: the dial succeeds, nothing is written to the client or the target,
  the pump does not start and \<^verbatim>\<open>BeforeResponseFail\<close> is recorded.\<close>

theorem forwardTunnel_refused_after_dial_counterexample:
  "DialTimeout (net (testProxy\<lparr>delegate := abortAt BeforeResponse\<rparr>)) ''example.com:443'' = None
   \<and> handlersEntered (log (forwardTunnel (testProxy\<lparr>delegate := abortAt BeforeResponse\<rparr>)
         (freshWorld connectRequest))) = [ForwardTunnel]
   \<and> outputs (log (forwardTunnel (testProxy\<lparr>delegate := abortAt BeforeResponse\<rparr>)
         (freshWorld connectRequest))) = []
   \<and> copied (log (forwardTunnel (testProxy\<lparr>delegate := abortAt BeforeResponse\<rparr>)
         (freshWorld connectRequest))) = []
   \<and> errType (ctx (forwardTunnel (testProxy\<lparr>delegate := abortAt BeforeResponse\<rparr>)
         (freshWorld connectRequest))) = Some BeforeResponseFail"
proof -
  define P where "P = testProxy\<lparr>delegate := abortAt BeforeResponse\<rparr>"
  have d: "dParentProxy (delegate P) c x = (c, None, None, asContext c)"
    "dBeforeResponseConn (delegate P) c e = c\<lparr>abort := True\<rparr>"
    "rwHijack (net P) = HijackOK" "DialTimeout (net P) a = None" for c x e a
    by (simp_all add: P_def testProxy_def okNet_def abortAt_def)
  have h: "hijacker P x = (emit Hijacked x, None)" for x
    by (simp add: hijacker_def d)
  have a: "\<not> abort (ctx (freshWorld connectRequest))"
    by (simp add: freshWorld_def newContext_def)
  have f: "forwardTunnel P (freshWorld connectRequest) =
      connClose ClientConn (SetContextErrType BeforeResponseFail
        (callDelegate BeforeResponse (\<lambda>c. c\<lparr>abort := True\<rparr>)
          (emit (Dialled (UHost (Url (Req (ctx (freshWorld connectRequest)))))) (setHijack (emit Hijacked
            (fst (callParentProxy P (Some RW)
               (emit (Enter ForwardTunnel) (freshWorld connectRequest)))))))))"
    using a by (simp add: forwardTunnel_def forwardTunnel_hijacked_def case_prod_beta Let_def h d)
  have "DialTimeout (net P) ''example.com:443'' = None
   \<and> handlersEntered (log (forwardTunnel P (freshWorld connectRequest))) = [ForwardTunnel]
   \<and> outputs (log (forwardTunnel P (freshWorld connectRequest))) = []
   \<and> copied (log (forwardTunnel P (freshWorld connectRequest))) = []
   \<and> errType (ctx (forwardTunnel P (freshWorld connectRequest))) = Some BeforeResponseFail"
    unfolding f by (simp add: d freshWorld_def)
  then show ?thesis
    by (simp only: P_def)
qed

subsection \<open>Byte accounting\<close>

text \<open>
  C5. Whenever the byte pump has run in a request, the copies are the two directions
  between the client connection and the target, and when \<^verbatim>\<open>ServeHTTP\<close> returns
  \<^verbatim>\<open>ReqLength\<close> is the number of bytes \<^verbatim>\<open>io.Copy\<close> copied from the client connection to the
  target and \<^verbatim>\<open>RespLength\<close> the number it copied from the target to the client connection.
\<close>

theorem pump_counters:
  "((TargetConn, ClientConn, n) \<in> set (copied (log (ServeHTTP_body p req)))
      \<longrightarrow> ReqLength (ctx (ServeHTTP_body p req)) = n)
   \<and> ((ClientConn, TargetConn, m) \<in> set (copied (log (ServeHTTP_body p req)))
      \<longrightarrow> RespLength (ctx (ServeHTTP_body p req)) = m)
   \<and> (\<forall>(d, s, k) \<in> set (copied (log (ServeHTTP_body p req))).
        (d = TargetConn \<and> s = ClientConn) \<or> (d = ClientConn \<and> s = TargetConn))"
  using ServeHTTP_body_pump [of p req] by (fastforce simp: pumpOK_def)

text \<open>The opaque tunnel on a network that carries 5 bytes up and 7 bytes down.\<close>

theorem pump_counters_witness:
  "(TargetConn, ClientConn, 5) \<in> set (copied (log (ServeHTTP_body testProxy connectRequest)))
   \<and> ReqLength (ctx (ServeHTTP_body testProxy connectRequest)) = 5
   \<and> (ClientConn, TargetConn, 7) \<in> set (copied (log (ServeHTTP_body testProxy connectRequest)))
   \<and> RespLength (ctx (ServeHTTP_body testProxy connectRequest)) = 7"
proof -
  have e: "copied (log (ServeHTTP_body testProxy connectRequest))
      = [(ClientConn, TargetConn, 7), (TargetConn, ClientConn, 5)]"
    by code_simp
  from e pump_counters [of 5 testProxy connectRequest 7] show ?thesis by simp
qed

text \<open>
  C6 (as amended). For every call \<^verbatim>\<open>transfer(ctx, src, dst)\<close> the bytes copied from
  \<^verbatim>\<open>dst\<close> to \<^verbatim>\<open>src\<close> (\<^verbatim>\<open>io.Copy(src, dst)\<close>) are recorded in \<^verbatim>\<open>RespLength\<close> and the
  bytes copied from \<^verbatim>\<open>src\<close> to \<^verbatim>\<open>dst\<close> in \<^verbatim>\<open>ReqLength\<close>; both copies have returned
  before either end is closed; a copy error records \<^verbatim>\<open>TunnelWriteConnFail\<close> and the other
  copy still runs and is counted.
\<close>

theorem transfer_records_counters:
  "RespLength (ctx (transfer p src dst w)) = fst (ioCopy (net p) src dst)
   \<and> ReqLength (ctx (transfer p src dst w)) = fst (ioCopy (net p) dst src)
   \<and> log (transfer p src dst w) =
       log w @ (if respCopyFirst (net p)
                then [Copied src dst (fst (ioCopy (net p) src dst)), Copied dst src (fst (ioCopy (net p) dst src))]
                else [Copied dst src (fst (ioCopy (net p) dst src)), Copied src dst (fst (ioCopy (net p) src dst))])
         @ [ConnClose src, ConnClose dst]
   \<and> errType (ctx (transfer p src dst w)) =
       (if snd (ioCopy (net p) src dst) = None \<and> snd (ioCopy (net p) dst src) = None then errType (ctx w)
        else Some TunnelWriteConnFail)"
  by simp

theorem transfer_records_counters_witness:
  "RespLength (ctx (transfer testProxy ClientConn TargetConn (freshWorld connectRequest))) = 7
   \<and> ReqLength (ctx (transfer testProxy ClientConn TargetConn (freshWorld connectRequest))) = 5
   \<and> log (transfer testProxy ClientConn TargetConn (freshWorld connectRequest)) =
       [Copied ClientConn TargetConn 7, Copied TargetConn ClientConn 5, ConnClose ClientConn, ConnClose TargetConn]"
  using transfer_records_counters [of testProxy ClientConn TargetConn "freshWorld connectRequest"]
  by (simp add: testProxy_def okNet_def freshWorld_def)

text \<open>C6 as stated fails: with 5 bytes copied from \<^verbatim>\<open>src\<close> (the client) to \<^verbatim>\<open>dst\<close> and
  7 bytes from \<^verbatim>\<open>dst\<close> to \<^verbatim>\<open>src\<close>, \<^verbatim>\<open>RespLength\<close> is 7 and \<^verbatim>\<open>ReqLength\<close> is 5.\<close>

theorem transfer_src_to_dst_counterexample:
  "fst (ioCopy (net testProxy) TargetConn ClientConn) = 5
   \<and> RespLength (ctx (transfer testProxy ClientConn TargetConn (freshWorld connectRequest))) = 7
   \<and> fst (ioCopy (net testProxy) ClientConn TargetConn) = 7
   \<and> ReqLength (ctx (transfer testProxy ClientConn TargetConn (freshWorld connectRequest))) = 5"
  by (simp add: testProxy_def okNet_def)

subsection \<open>Plain WebSocket forwarder\<close>

text \<open>
  C7 (the code at the failing input). The claim is that after dial and hijack the
  handshake response is written to the client and the byte pump runs. \<^verbatim>\<open>serveWebsocket\<close>
  closes the client connection right after the hijack, so on a network where every
  operation succeeds the request reaches the target, the write of the response to the
  client fails, \<^verbatim>\<open>HTTPWebsocketHandshakeFail\<close> is recorded and the pump never starts.
\<close>

theorem serveWebsocket_closes_client_before_handshake:
  "log (ServeHTTP testProxy wsRequest) =
     [Cb Connect False, Cb Auth False, Enter ForwardHTTPWebsocket, Cb ParentProxy False,
      Dialled ''example.com:80'', Hijacked, ConnClose ClientConn,
      Wrote TargetConn (ReqMsg (wsRequest\<lparr>Url := (Url wsRequest)\<lparr>Scheme := ''ws''\<rparr>\<rparr>)),
      WriteFailed ClientConn (RespMsg switchingProtocols),
      ConnClose TargetConn, Cb Finish False]
   \<and> copied (log (ServeHTTP testProxy wsRequest)) = []
   \<and> errType (ctx (ServeHTTP testProxy wsRequest)) = Some HTTPWebsocketHandshakeFail"
proof -
  have ws: "isWebSocketRequest asciiStrings wsRequest"
    by code_simp
  show ?thesis
    by (simp add: model_defs fixture_defs Let_def ws [unfolded wsRequest_def])
qed

subsection \<open>MITM HTTPS forwarder\<close>

text \<open>
  C8. When \<^verbatim>\<open>forwardHTTPS\<close> gets as far as reading the inner request (certificate, hijack,
  established line and TLS handshake all succeeded) and the read fails with EOF, it returns
  with the error kind and the error of the context unchanged; when the read fails with
  another error it records \<^verbatim>\<open>HTTPSReadReqFromBufFail\<close> with that error. In both cases the
  only thing sent to the client is the established line written before the read, no request
  goes to the transport and no delegate callback runs.
\<close>

theorem forwardHTTPS_inner_read_fails:
  assumes "GenerateTLSConfig p (UHost (Url (Req (ctx w)))) = None"
    and "rwHijack (net p) = HijackOK"
    and "\<not> clientClosed w"
    and "snd (ioWrite (net p) ClientConn (Bytes tunnelEstablishedResponseLine)) = None"
    and "tlsHandshake (net p) = None"
  shows "(ReadRequest (net p) = ReadEOF \<longrightarrow>
            errType (ctx (forwardHTTPS p w)) = errType (ctx w) \<and>
            err (ctx (forwardHTTPS p w)) = err (ctx w) \<and>
            outputs (log (forwardHTTPS p w)) =
              outputs (log w) @ [Wrote ClientConn (Bytes tunnelEstablishedResponseLine)] \<and>
            forwarded (log (forwardHTTPS p w)) = forwarded (log w) \<and>
            callbacks (log (forwardHTTPS p w)) = callbacks (log w))
       \<and> (\<forall>e. ReadRequest (net p) = ReadError e \<longrightarrow>
            errType (ctx (forwardHTTPS p w)) = Some HTTPSReadReqFromBufFail \<and>
            err (ctx (forwardHTTPS p w)) = Some e \<and>
            outputs (log (forwardHTTPS p w)) =
              outputs (log w) @ [Wrote ClientConn (Bytes tunnelEstablishedResponseLine)] \<and>
            forwarded (log (forwardHTTPS p w)) = forwarded (log w) \<and>
            callbacks (log (forwardHTTPS p w)) = callbacks (log w))"
proof -
  note r = forwardHTTPS_reaches_tls [OF assms(1-4)]
  note t = forwardHTTPS_tls_read_fails [OF assms(5)]
  show ?thesis
    by (simp add: r t)
qed

theorem forwardHTTPS_inner_read_fails_witness:
  "GenerateTLSConfig (testProxy\<lparr>net := okNet\<lparr>ReadRequest := ReadEOF\<rparr>\<rparr>)
       (UHost (Url (Req (ctx (freshWorld connectRequest))))) = None
   \<and> rwHijack (net (testProxy\<lparr>net := okNet\<lparr>ReadRequest := ReadEOF\<rparr>\<rparr>)) = HijackOK
   \<and> \<not> clientClosed (freshWorld connectRequest)
   \<and> snd (ioWrite (net (testProxy\<lparr>net := okNet\<lparr>ReadRequest := ReadEOF\<rparr>\<rparr>)) ClientConn
            (Bytes tunnelEstablishedResponseLine)) = None
   \<and> tlsHandshake (net (testProxy\<lparr>net := okNet\<lparr>ReadRequest := ReadEOF\<rparr>\<rparr>)) = None
   \<and> ReadRequest (net (testProxy\<lparr>net := okNet\<lparr>ReadRequest := ReadEOF\<rparr>\<rparr>)) = ReadEOF
   \<and> errType (ctx (forwardHTTPS (testProxy\<lparr>net := okNet\<lparr>ReadRequest := ReadEOF\<rparr>\<rparr>)
        (freshWorld connectRequest))) = None
   \<and> outputs (log (forwardHTTPS (testProxy\<lparr>net := okNet\<lparr>ReadRequest := ReadEOF\<rparr>\<rparr>)
        (freshWorld connectRequest))) = [Wrote ClientConn (Bytes tunnelEstablishedResponseLine)]"
proof -
  let ?p = "testProxy\<lparr>net := okNet\<lparr>ReadRequest := ReadEOF\<rparr>\<rparr>"
  have a: "GenerateTLSConfig ?p (UHost (Url (Req (ctx (freshWorld connectRequest))))) = None"
    and b: "rwHijack (net ?p) = HijackOK"
    and c: "\<not> clientClosed (freshWorld connectRequest)"
    and d: "snd (ioWrite (net ?p) ClientConn (Bytes tunnelEstablishedResponseLine)) = None"
    and e: "tlsHandshake (net ?p) = None"
    and f: "ReadRequest (net ?p) = ReadEOF"
    by (simp_all add: testProxy_def okNet_def freshWorld_def)
  from forwardHTTPS_inner_read_fails [OF a b c d e] f a b c d e show ?thesis
    by (simp add: freshWorld_def newContext_def)
qed

subsection \<open>Close-once guard\<close>

text \<open>
  C9. Along any sequence of calls to \<^verbatim>\<open>CloseResponseBody\<close> and \<^verbatim>\<open>CloseNetConn\<close> on one
  context, \<^verbatim>\<open>Closed\<close> goes from false to true at most once and at most one resource is
  closed; a call on a context already closed changes nothing, and a call on a context not
  yet closed closes its resource and sets the flag.
\<close>

theorem close_once:
  "risingEdges (closedHistory cs w) \<le> 1
   \<and> length (filter isCloseEvent (log (closeCalls cs w))) \<le> length (filter isCloseEvent (log w)) + 1
   \<and> (Closed (ctx w) \<longrightarrow> closeCall c w = w)
   \<and> (\<not> Closed (ctx w) \<longrightarrow>
        Closed (ctx (closeCall c w)) \<and>
        log (closeCall c w) =
          log w @ [case c of CallCloseResponseBody \<Rightarrow> BodyClose | CallCloseNetConn conn \<Rightarrow> ConnClose conn])"
  using risingEdges_history [of cs w] closeCalls_events [of cs w] closeCall_closed [of w c]
  by (cases c) simp_all

theorem close_once_witness:
  "\<not> Closed (ctx (freshWorld getRequest))
   \<and> log (closeCall (CallCloseNetConn TargetConn) (freshWorld getRequest)) = [ConnClose TargetConn]
   \<and> Closed (ctx (closeCall (CallCloseNetConn TargetConn) (freshWorld getRequest)))
   \<and> closeCall CallCloseResponseBody (closeCall (CallCloseNetConn TargetConn) (freshWorld getRequest))
       = closeCall (CallCloseNetConn TargetConn) (freshWorld getRequest)"
proof -
  have a: "\<not> Closed (ctx (freshWorld getRequest))"
    by (simp add: freshWorld_def newContext_def)
  have l: "log (freshWorld getRequest) = []"
    by (simp add: freshWorld_def)
  from a l close_once [of "[]" "freshWorld getRequest" "CallCloseNetConn TargetConn"]
  have b: "Closed (ctx (closeCall (CallCloseNetConn TargetConn) (freshWorld getRequest)))"
    and c: "log (closeCall (CallCloseNetConn TargetConn) (freshWorld getRequest)) = [ConnClose TargetConn]"
    by simp_all
  from b close_once [of "[]" "closeCall (CallCloseNetConn TargetConn) (freshWorld getRequest)" CallCloseResponseBody]
  have "closeCall CallCloseResponseBody (closeCall (CallCloseNetConn TargetConn) (freshWorld getRequest))
       = closeCall (CallCloseNetConn TargetConn) (freshWorld getRequest)"
    by blast
  with a b c show ?thesis by blast
qed

subsection \<open>More than one connection argument\<close>

text \<open>
  C10. Called with more than one trailing \<^verbatim>\<open>conn\<close> argument, \<^verbatim>\<open>DoRequest\<close> returns at
  once: the context and the log are those it was called with (no callback, no request, no
  continuation, no error kind, no counter changed).
\<close>

theorem DoRequest_more_than_one_conn:
  "length conn > 1 \<Longrightarrow> DoRequest p responseFunc conn w = w"
  by (simp add: DoRequest_def)

theorem DoRequest_more_than_one_conn_witness:
  "length [TLSClientConn, TargetConn] > 1
   \<and> DoRequest testProxy (forwardHTTP_responseFunc testProxy) [TLSClientConn, TargetConn] (freshWorld getRequest)
       = freshWorld getRequest"
  using DoRequest_more_than_one_conn
    [of "[TLSClientConn, TargetConn]" testProxy "forwardHTTP_responseFunc testProxy" "freshWorld getRequest"]
  by simp

end
